theory Spec2Isabelle
  imports Complex_Main
begin

section \<open>Common Python notions\<close>

text \<open>
  Exceptions are values. A method that can raise returns the exception (or the normal
  result) together with the object as the method left it: attributes assigned before a
  \<^verbatim>\<open>raise\<close> stay assigned.
\<close>

datatype error = ValueError | RuntimeError | ZeroDivisionError | OverflowError | LibraryError

text \<open>
  A \<^verbatim>\<open>datetime\<close> is the number of microseconds since \<^verbatim>\<open>datetime.min\<close>, the
  first instant of the year 1; the largest one is \<^verbatim>\<open>datetime.max\<close>, the last
  microsecond of the year 9999, 3652059 days later. \<^verbatim>\<open>timedelta(seconds=n)\<close> raises
  OverflowError when \<open>n\<close> seconds are more than 999999999 days either way, and adding
  a timedelta to a datetime raises OverflowError when the sum is no datetime.
\<close>

type_synonym datetime = int

definition datetime_max :: datetime where
  "datetime_max = 3652059 * 86400 * 1000000 - 1"

definition timedelta_seconds :: "int \<Rightarrow> error + int" where
  "timedelta_seconds n =
     (if - (999999999 * 86400) \<le> n \<and> n < 1000000000 * 86400 then Inr (n * 1000000)
      else Inl OverflowError)"

definition datetime_add :: "datetime \<Rightarrow> int \<Rightarrow> error + datetime" where
  "datetime_add t d =
     (if 0 \<le> t + d \<and> t + d \<le> datetime_max then Inr (t + d) else Inl OverflowError)"

text \<open>\<^verbatim>\<open>t + timedelta(seconds=n)\<close>\<close>

definition plus_seconds :: "datetime \<Rightarrow> int \<Rightarrow> error + datetime" where
  "plus_seconds t n =
     (case timedelta_seconds n of
        Inl e \<Rightarrow> Inl e
      | Inr d \<Rightarrow> datetime_add t d)"

section \<open>scheduler.py: ScannerScheduler\<close>

text \<open>
  The configuration object is shared by reference: \<open>config\<close> is the dictionary held
  by ConfigManager (restricted to integer-valued top-level keys, the only ones the
  scheduler touches) and \<open>config_file\<close> is what \<^verbatim>\<open>_save_config\<close> last wrote.
  The scraper, the logger and the thread handle carry no state that the scheduler reads
  back; the loop of \<^verbatim>\<open>_run_scheduler\<close> is alive exactly as long as
  \<open>running\<close> holds when it tests its condition.
\<close>

record scheduler =
  config :: "string \<rightharpoonup> int"
  config_file :: "string \<rightharpoonup> int"
  scan_interval :: int
  enabled :: bool
  running :: bool
  last_scan :: "datetime option"
  next_scan :: "datetime option"
  total_scans :: int
  successful_scans :: int
  failed_scans :: int

definition config_get :: "(string \<rightharpoonup> int) \<Rightarrow> string \<Rightarrow> int \<Rightarrow> int" where
  "config_get c k d = (case c k of Some v \<Rightarrow> v | None \<Rightarrow> d)"

definition init_scheduler :: "(string \<rightharpoonup> int) \<Rightarrow> scheduler" where
  "init_scheduler c =
     \<lparr> config = c, config_file = c,
       scan_interval = config_get c ''scan_interval'' 3600,
       enabled = True, running = False,
       last_scan = None, next_scan = None,
       total_scans = 0, successful_scans = 0, failed_scans = 0 \<rparr>"

text \<open>
  \<^verbatim>\<open>_schedule_next_scan\<close>; \<open>now\<close> is what \<^verbatim>\<open>datetime.now()\<close> returns there.
  When the addition raises, \<^verbatim>\<open>self.next_scan\<close> is not assigned.
\<close>

definition schedule_next_scan :: "datetime \<Rightarrow> scheduler \<Rightarrow> (error + unit) \<times> scheduler" where
  "schedule_next_scan now s =
     (case last_scan s of
        Some l \<Rightarrow>
          (case plus_seconds l (scan_interval s) of
             Inl e \<Rightarrow> (Inl e, s)
           | Inr t \<Rightarrow> (Inr (), s\<lparr>next_scan := Some t\<rparr>))
      | None \<Rightarrow>
          (case plus_seconds now 60 of
             Inl e \<Rightarrow> (Inl e, s)
           | Inr t \<Rightarrow> (Inr (), s\<lparr>next_scan := Some t\<rparr>)))"

definition start :: "datetime \<Rightarrow> scheduler \<Rightarrow> (error + unit) \<times> scheduler" where
  "start now s =
     (if running s then (Inr (), s)
      else schedule_next_scan now (s\<lparr>enabled := True, running := True\<rparr>))"

definition stop :: "scheduler \<Rightarrow> scheduler" where
  "stop s = s\<lparr>enabled := False, running := False\<rparr>"

text \<open>
  \<^verbatim>\<open>_perform_scan\<close>. The pipeline (route rotation, then \<^verbatim>\<open>scan_websites\<close>) is
  external: either it returns its list of articles, and \<^verbatim>\<open>self.last_scan\<close> is set
  to the clock reading given here, or it raises, and the \<^verbatim>\<open>except\<close> branch runs.
  Nothing after the counters of the \<^verbatim>\<open>try\<close> body can raise (the result is a list,
  both notification helpers catch their own exceptions), so the two branches exclude
  each other.
\<close>

datatype scan_outcome = ScanReturned datetime | ScanRaised

definition perform_scan :: "scan_outcome \<Rightarrow> scheduler \<Rightarrow> scheduler" where
  "perform_scan out s =
     (case out of
        ScanReturned t \<Rightarrow>
          s\<lparr>last_scan := Some t,
            total_scans := total_scans s + 1,
            successful_scans := successful_scans s + 1\<rparr>
      | ScanRaised \<Rightarrow>
          s\<lparr>total_scans := total_scans s + 1,
            failed_scans := failed_scans s + 1\<rparr>)"

text \<open>
  One pass through the body of the \<^verbatim>\<open>while self.running\<close> loop of
  \<^verbatim>\<open>_run_scheduler\<close>: \<open>current_time\<close> is the clock at the top of the pass,
  \<open>out\<close> what the pipeline does if it is started, \<open>now\<close> the clock when the next
  scan is scheduled. An exception of the scheduling is caught by the loop, which logs
  it and goes on.
\<close>

definition scan_due :: "datetime \<Rightarrow> scheduler \<Rightarrow> bool" where
  "scan_due current_time s =
     (case next_scan s of None \<Rightarrow> False | Some n \<Rightarrow> current_time \<ge> n)"

definition run_scheduler_pass :: "datetime \<Rightarrow> scan_outcome \<Rightarrow> datetime \<Rightarrow> scheduler \<Rightarrow> scheduler" where
  "run_scheduler_pass current_time out now s =
     (if scan_due current_time s
      then snd (schedule_next_scan now (perform_scan out s))
      else s)"

text \<open>\<^verbatim>\<open>get_status\<close>, the derived field: Python's true division of two integers.\<close>

definition py_truediv :: "int \<Rightarrow> int \<Rightarrow> error + rat" where
  "py_truediv a b = (if b = 0 then Inl ZeroDivisionError else Inr (of_int a / of_int b))"

definition success_rate :: "scheduler \<Rightarrow> error + rat" where
  "success_rate s = py_truediv (successful_scans s) (max (total_scans s) 1)"

definition config_set :: "string \<Rightarrow> int \<Rightarrow> scheduler \<Rightarrow> scheduler" where
  "config_set k v s =
     (let c = (config s)(k \<mapsto> v) in s\<lparr>config := c, config_file := c\<rparr>)"

definition set_scan_interval :: "datetime \<Rightarrow> int \<Rightarrow> scheduler \<Rightarrow> (error + unit) \<times> scheduler" where
  "set_scan_interval now interval s =
     (if interval < 60 then (Inl ValueError, s)
      else
        let s1 = config_set ''scan_interval'' interval (s\<lparr>scan_interval := interval\<rparr>)
        in if running s1 then schedule_next_scan now s1 else (Inr (), s1))"

definition trigger_scan_now :: "datetime \<Rightarrow> scheduler \<Rightarrow> (error + unit) \<times> scheduler" where
  "trigger_scan_now now s =
     (if \<not> running s then (Inl RuntimeError, s)
      else (Inr (), s\<lparr>next_scan := Some now\<rparr>))"

definition pause :: "scheduler \<Rightarrow> scheduler" where
  "pause s = s\<lparr>enabled := False\<rparr>"

definition resume :: "datetime \<Rightarrow> scheduler \<Rightarrow> (error + unit) \<times> scheduler" where
  "resume now s =
     (if \<not> running s then (Inl RuntimeError, s)
      else schedule_next_scan now (s\<lparr>enabled := True\<rparr>))"

definition is_paused :: "scheduler \<Rightarrow> bool" where
  "is_paused s = (\<not> enabled s \<and> running s)"

text \<open>
  The life of a scheduler: calls of its public methods from the controlling thread,
  interleaved with passes of the loop. A pass happens only while \<open>running\<close> holds,
  which is the loop's own condition.
\<close>

datatype event =
    Start datetime
  | Stop
  | Pause
  | Resume datetime
  | SetScanInterval datetime int
  | TriggerScanNow datetime
  | LoopPass datetime scan_outcome datetime

fun apply_event :: "event \<Rightarrow> scheduler \<Rightarrow> scheduler" where
  "apply_event (Start now) s = snd (start now s)"
| "apply_event Stop s = stop s"
| "apply_event Pause s = pause s"
| "apply_event (Resume now) s = snd (resume now s)"
| "apply_event (SetScanInterval now i) s = snd (set_scan_interval now i s)"
| "apply_event (TriggerScanNow now) s = snd (trigger_scan_now now s)"
| "apply_event (LoopPass t out now) s =
     (if running s then run_scheduler_pass t out now s else s)"

fun run_events :: "event list \<Rightarrow> scheduler \<Rightarrow> scheduler" where
  "run_events [] s = s"
| "run_events (e # es) s = run_events es (apply_event e s)"

inductive reachable :: "(string \<rightharpoonup> int) \<Rightarrow> scheduler \<Rightarrow> bool" for c where
  reach_init: "reachable c (init_scheduler c)"
| reach_step: "reachable c s \<Longrightarrow> reachable c (apply_event e s)"

section \<open>Python strings\<close>

text \<open>
  A Python \<^verbatim>\<open>str\<close> is modelled by a \<open>string\<close> whose characters are its code
  points, for texts whose code points lie below 256; \<open>length\<close> is then Python's
  \<^verbatim>\<open>len\<close>. The character classes below are those of Python 3 on that range.
\<close>

definition py_isupper :: "char \<Rightarrow> bool" where
  "py_isupper c =
     (let n = (of_char c :: nat)
      in (65 \<le> n \<and> n \<le> 90) \<or> (192 \<le> n \<and> n \<le> 222 \<and> n \<noteq> 215))"

definition py_lower_char :: "char \<Rightarrow> char" where
  "py_lower_char c = (if py_isupper c then char_of ((of_char c :: nat) + 32) else c)"

definition py_lower :: "string \<Rightarrow> string" where
  "py_lower s = map py_lower_char s"

definition py_isspace :: "char \<Rightarrow> bool" where
  "py_isspace c =
     (let n = (of_char c :: nat)
      in (9 \<le> n \<and> n \<le> 13) \<or> (28 \<le> n \<and> n \<le> 32) \<or> n = 133 \<or> n = 160)"

text \<open>The class \<^verbatim>\<open>\w\<close> of the \<^verbatim>\<open>re\<close> module for \<^verbatim>\<open>str\<close> patterns.\<close>

definition is_word_char :: "char \<Rightarrow> bool" where
  "is_word_char c =
     (let n = (of_char c :: nat)
      in (48 \<le> n \<and> n \<le> 57) \<or> (65 \<le> n \<and> n \<le> 90) \<or> n = 95 \<or> (97 \<le> n \<and> n \<le> 122)
         \<or> n = 170 \<or> n = 178 \<or> n = 179 \<or> n = 181 \<or> n = 185 \<or> n = 186
         \<or> n = 188 \<or> n = 189 \<or> n = 190
         \<or> (192 \<le> n \<and> n \<noteq> 215 \<and> n \<noteq> 247))"

text \<open>\<^verbatim>\<open>str.split()\<close> without arguments: the maximal runs of non-space characters.\<close>

fun split_from :: "string \<Rightarrow> string \<Rightarrow> string list" where
  "split_from cur [] = (if cur = [] then [] else [cur])"
| "split_from cur (c # cs) =
     (if py_isspace c
      then (if cur = [] then split_from [] cs else cur # split_from [] cs)
      else split_from (cur @ [c]) cs)"

definition py_split :: "string \<Rightarrow> string list" where
  "py_split s = split_from [] s"

text \<open>The operator \<^verbatim>\<open>in\<close> on two strings: \<open>pat\<close> occurs in \<open>s\<close> as a substring.\<close>

fun py_startswith :: "string \<Rightarrow> string \<Rightarrow> bool" where
  "py_startswith [] s = True"
| "py_startswith (p # ps) [] = False"
| "py_startswith (p # ps) (c # cs) = (p = c \<and> py_startswith ps cs)"

fun py_in :: "string \<Rightarrow> string \<Rightarrow> bool" where
  "py_in pat [] = (pat = [])"
| "py_in pat (c # cs) = (py_startswith pat (c # cs) \<or> py_in pat cs)"

section \<open>Regular expressions of content\_filter.py\<close>

text \<open>
  The only patterns the filter compiles are
  \<^verbatim>\<open>re.compile(r'\b' + re.escape(term) + r'\b', re.IGNORECASE)\<close>:
  a word boundary, the term taken literally and without regard to case, a word
  boundary. \<open>WordPattern term\<close> is that compiled pattern.
\<close>

datatype pattern = WordPattern string

text \<open>
  \<^verbatim>\<open>\b\<close> holds between two neighbouring positions when exactly one of them is a
  word character; beyond either end of the text there is no character.
\<close>

definition is_word :: "char option \<Rightarrow> bool" where
  "is_word x = (case x of None \<Rightarrow> False | Some c \<Rightarrow> is_word_char c)"

definition word_boundary :: "char option \<Rightarrow> char option \<Rightarrow> bool" where
  "word_boundary l r = (is_word l \<noteq> is_word r)"

definition first_char :: "string \<Rightarrow> char option" where
  "first_char s = (case s of [] \<Rightarrow> None | c # _ \<Rightarrow> Some c)"

text \<open>
  \<open>match_literal term prev s\<close>: the term matches a prefix of \<open>s\<close> character by
  character, case ignored; the result is the last character consumed (\<open>prev\<close> when
  the term is empty) and the rest of the text.
\<close>

fun match_literal :: "string \<Rightarrow> char option \<Rightarrow> string \<Rightarrow> (char option \<times> string) option" where
  "match_literal [] prev s = Some (prev, s)"
| "match_literal (p # ps) prev [] = None"
| "match_literal (p # ps) prev (c # cs) =
     (if py_lower_char p = py_lower_char c then match_literal ps (Some c) cs else None)"

text \<open>The pattern matches at the position whose left neighbour is \<open>prev\<close> and whose text is \<open>s\<close>.\<close>

definition match_at :: "pattern \<Rightarrow> char option \<Rightarrow> string \<Rightarrow> bool" where
  "match_at pat prev s =
     (case pat of WordPattern term \<Rightarrow>
        word_boundary prev (first_char s) \<and>
        (case match_literal term prev s of
           None \<Rightarrow> False
         | Some (lst, rest) \<Rightarrow> word_boundary lst (first_char rest)))"

text \<open>\<^verbatim>\<open>pattern.search(text)\<close>, as a truth value: some position matches.\<close>

fun search_from :: "pattern \<Rightarrow> char option \<Rightarrow> string \<Rightarrow> bool" where
  "search_from pat prev [] = match_at pat prev []"
| "search_from pat prev (c # cs) = (match_at pat prev (c # cs) \<or> search_from pat (Some c) cs)"

definition re_search :: "pattern \<Rightarrow> string \<Rightarrow> bool" where
  "re_search pat text = search_from pat None text"

section \<open>Articles\<close>

text \<open>
  An article is the dictionary built by the scraper. A key read with
  \<^verbatim>\<open>article.get(key, '')\<close> is a string field here, holding the empty string
  when the key is missing; \<open>image_url\<close> is read with \<^verbatim>\<open>article.get('image_url')\<close>
  and may be missing or \<^verbatim>\<open>None\<close>.
\<close>

record article =
  title :: string
  content :: string
  cleaned_content :: string
  image_url :: "string option"
  link :: string
  source_url :: string
  scraped_at :: string

text \<open>Truth value of an optional string: \<^verbatim>\<open>None\<close> and \<^verbatim>\<open>''\<close> are false.\<close>

definition truthy :: "string option \<Rightarrow> bool" where
  "truthy x = (case x of None \<Rightarrow> False | Some u \<Rightarrow> u \<noteq> [])"

section \<open>content\_filter.py: ContentFilter\<close>

text \<open>
  The two pattern lists are compiled from \<open>keyword_list\<close> (the attribute \<^verbatim>\<open>keywords\<close>) and \<open>blacklist\<close> by the
  constructor and again by \<^verbatim>\<open>update_keywords\<close> and \<^verbatim>\<open>update_blacklist\<close>, the
  only places that assign any of the four attributes; they are functions of the lists.
\<close>

record content_filter =
  keyword_list :: "string list"
  blacklist :: "string list"
  min_content_length :: int
  learning_enabled :: bool

definition keyword_patterns :: "content_filter \<Rightarrow> pattern list" where
  "keyword_patterns f = map WordPattern (keyword_list f)"

definition blacklist_patterns :: "content_filter \<Rightarrow> pattern list" where
  "blacklist_patterns f = map WordPattern (blacklist f)"

text \<open>The filter built from the default configuration of config\_manager.py.\<close>

definition default_content_filter :: content_filter where
  "default_content_filter =
     \<lparr> keyword_list = [''important'', ''news'', ''update''],
       blacklist = [''spam'', ''advertisement''],
       min_content_length = 100,
       learning_enabled = True \<rparr>"

definition update_keywords :: "string list \<Rightarrow> content_filter \<Rightarrow> content_filter" where
  "update_keywords new_keywords f = f\<lparr>keyword_list := new_keywords\<rparr>"

definition update_blacklist :: "string list \<Rightarrow> content_filter \<Rightarrow> content_filter" where
  "update_blacklist new_blacklist f = f\<lparr>blacklist := new_blacklist\<rparr>"

definition contains_keywords :: "content_filter \<Rightarrow> string \<Rightarrow> bool" where
  "contains_keywords f text =
     (if keyword_list f = [] then True
      else list_ex (\<lambda>pat. re_search pat text) (keyword_patterns f))"

definition contains_blacklisted_terms :: "content_filter \<Rightarrow> string \<Rightarrow> bool" where
  "contains_blacklisted_terms f text = list_ex (\<lambda>pat. re_search pat text) (blacklist_patterns f)"

text \<open>
  Python's \<^verbatim>\<open>/\<close> on two lengths or counts. The quotients are floats in
  the source and exact rationals here; a count below \<open>2 ^ 50\<close> divided by another and
  compared with \<^verbatim>\<open>0.3\<close> or \<^verbatim>\<open>0.05\<close> gives the same answer in both.
\<close>

definition count_div :: "nat \<Rightarrow> nat \<Rightarrow> error + rat" where
  "count_div a b = py_truediv (int a) (int b)"




section \<open>Clock readings and their text forms\<close>

text \<open>
  \<^verbatim>\<open>datetime.now()\<close> yields the fields of the local wall clock; SQLite's
  \<^verbatim>\<open>'now'\<close> is the clock in UTC. One reading of both serves a whole call of a
  database method.
\<close>

record civil =
  year :: nat
  month :: nat
  day :: nat
  hour :: nat
  minute :: nat
  second :: nat
  microsecond :: nat

record clock =
  local_now :: civil
  utc_now :: civil

definition digit :: "nat \<Rightarrow> char" where
  "digit d = char_of (48 + d mod 10)"

text \<open>Decimal digits of \<open>n\<close>, zero-padded to the width; exact when \<open>n\<close> fits.\<close>

fun zero_pad :: "nat \<Rightarrow> nat \<Rightarrow> string" where
  "zero_pad 0 n = []"
| "zero_pad (Suc w) n = zero_pad w (n div 10) @ [digit n]"

definition date_text :: "civil \<Rightarrow> string" where
  "date_text t = zero_pad 4 (year t) @ ''-'' @ zero_pad 2 (month t) @ ''-'' @ zero_pad 2 (day t)"

definition time_text :: "civil \<Rightarrow> string" where
  "time_text t = zero_pad 2 (hour t) @ '':'' @ zero_pad 2 (minute t) @ '':'' @ zero_pad 2 (second t)"

text \<open>\<^verbatim>\<open>datetime.isoformat()\<close>: separator \<^verbatim>\<open>T\<close>, microseconds unless zero.\<close>

definition isoformat :: "civil \<Rightarrow> string" where
  "isoformat t =
     date_text t @ ''T'' @ time_text t @
     (if microsecond t = 0 then [] else ''.'' @ zero_pad 6 (microsecond t))"

text \<open>The text SQLite's \<^verbatim>\<open>datetime(...)\<close> returns: a space, whole seconds.\<close>

definition sqlite_datetime :: "civil \<Rightarrow> string" where
  "sqlite_datetime t = date_text t @ '' '' @ time_text t"

definition leap_year :: "nat \<Rightarrow> bool" where
  "leap_year y = (y mod 4 = 0 \<and> (y mod 100 \<noteq> 0 \<or> y mod 400 = 0))"

definition days_in_month :: "nat \<Rightarrow> nat \<Rightarrow> nat" where
  "days_in_month y m =
     (if m = 2 then (if leap_year y then 29 else 28)
      else if m = 4 \<or> m = 6 \<or> m = 9 \<or> m = 11 then 30 else 31)"

text \<open>The modifier \<^verbatim>\<open>'-1 day'\<close>: the same time of day on the previous date.\<close>

definition minus_one_day :: "civil \<Rightarrow> civil" where
  "minus_one_day t =
     (if day t > 1 then t\<lparr>day := day t - 1\<rparr>
      else if month t > 1 then t\<lparr>month := month t - 1, day := days_in_month (year t) (month t - 1)\<rparr>
      else t\<lparr>year := year t - 1, month := 12, day := 31\<rparr>)"

text \<open>
  SQLite compares two TEXT values byte by byte (collation BINARY); a proper prefix is
  smaller.
\<close>

fun text_less :: "string \<Rightarrow> string \<Rightarrow> bool" where
  "text_less [] [] = False"
| "text_less [] (y # ys) = True"
| "text_less (x # xs) [] = False"
| "text_less (x # xs) (y # ys) =
     ((of_char x :: nat) < of_char y \<or> (x = y \<and> text_less xs ys))"

text \<open>Order of two clock readings in time: field by field, as Python compares datetimes.\<close>

fun fields_less :: "nat list \<Rightarrow> nat list \<Rightarrow> bool" where
  "fields_less (x # xs) (y # ys) = (x < y \<or> (x = y \<and> fields_less xs ys))"
| "fields_less xs ys = False"

definition civil_fields :: "civil \<Rightarrow> nat list" where
  "civil_fields t = [year t, month t, day t, hour t, minute t, second t, microsecond t]"

definition earlier :: "civil \<Rightarrow> civil \<Rightarrow> bool" where
  "earlier a b = fields_less (civil_fields a) (civil_fields b)"

section \<open>learning\_database.py: LearningDatabase\<close>

text \<open>
  The SQLite file is the three tables the methods below touch, each a list of rows in
  insertion order; rows are never deleted, so AUTOINCREMENT numbers them from 1. The
  connection never switches foreign-key enforcement on, so the clause
  \<^verbatim>\<open>FOREIGN KEY (article_id) REFERENCES articles (id)\<close> of \<^verbatim>\<open>user_feedback\<close>
  rejects nothing. Failures of the storage medium itself are outside the model.
\<close>

record article_row =
  row_id :: int
  row_title :: string
  row_content :: string
  row_image_url :: "string option"
  row_link :: string
  row_source_url :: string
  row_scraped_at :: string
  relevance_score :: rat
  user_interest :: "int option"
  row_keywords :: "string list"
  processed :: bool

record feedback_row =
  feedback_id :: int
  article_id :: int
  feedback_type :: string
  feedback_timestamp :: string

record metric_row =
  metric_name :: string
  metric_value :: rat
  metric_timestamp :: string

text \<open>
  scikit-learn is a library outside the repository. Its calls are parameters: each
  either raises or returns. A fresh estimator object is \<open>Unfitted\<close>; fitting it in
  place makes it \<open>Fitted\<close> with what was learned.
\<close>

datatype 'a estimator = Unfitted | Fitted 'a

record ('v, 'x, 'c) sklearn =
  fit_transform :: "string list \<Rightarrow> error + ('v \<times> 'x)"
  train_test_split :: "'x \<Rightarrow> int list \<Rightarrow> error + ('x \<times> 'x \<times> int list \<times> int list)"
  fit :: "'x \<Rightarrow> int list \<Rightarrow> error + 'c"
  predict :: "'c \<Rightarrow> 'x \<Rightarrow> error + int list"
  accuracy_score :: "int list \<Rightarrow> int list \<Rightarrow> error + rat"
  transform :: "'v \<Rightarrow> string list \<Rightarrow> error + 'x"
  predict_proba :: "'c \<Rightarrow> 'x \<Rightarrow> error + rat list"
  count_vectorizer_features :: "string \<Rightarrow> error + string list"

text \<open>
  \<open>cfg_keywords\<close> and \<open>cfg_blacklist\<close> are the configuration entries
  \<^verbatim>\<open>content_filter.keywords\<close> and \<^verbatim>\<open>content_filter.blacklist\<close>; \<open>model_file\<close> is
  the \<^verbatim>\<open>trained_at\<close> entry of model.json when the file exists; \<open>log\<close> collects the
  messages handed to the logger.
\<close>

record ('v, 'c) learning_database =
  cfg_keywords :: "string list"
  cfg_blacklist :: "string list"
  articles :: "article_row list"
  user_feedback :: "feedback_row list"
  performance_metrics :: "metric_row list"
  vectorizer :: "'v estimator option"
  classifier :: "'c estimator option"
  model_trained :: bool
  model_file :: "string option"
  log :: "string list"

definition logged :: "string \<Rightarrow> ('v, 'c) learning_database \<Rightarrow> ('v, 'c) learning_database" where
  "logged msg d = d\<lparr>log := log d @ [msg]\<rparr>"

text \<open>
  \<^verbatim>\<open>_calculate_relevance_score\<close>. The floats of the source are exact rationals
  here. The \<^verbatim>\<open>except\<close> branch answers 0.0.
\<close>

definition calculate_relevance_score :: "('v, 'c) learning_database \<Rightarrow> article \<Rightarrow> rat" where
  "calculate_relevance_score d a =
     (let the_title = title a;
          the_content = cleaned_content a;
          score = 0;
          title_length = length the_title;
          score = (if 20 \<le> title_length \<and> title_length \<le> 100 then score + 2 / 10 else score);
          content_length = length the_content;
          score = (if content_length > 200 then score + 2 / 10 else score);
          kws = cfg_keywords d;
          keyword_matches =
            length (filter (\<lambda>keyword. py_in (py_lower keyword)
                                            (py_lower (the_title @ '' '' @ the_content))) kws)
      in if kws \<noteq> []
         then (case count_div keyword_matches (length kws) of
                 Inl e \<Rightarrow> 0
               | Inr q \<Rightarrow>
                   (let score = score + q * (4 / 10);
                        score = (if truthy (image_url a) then score + 2 / 10 else score)
                    in min score 1))
         else
           (let score = (if truthy (image_url a) then score + 2 / 10 else score)
            in min score 1))"

text \<open>\<^verbatim>\<open>_extract_keywords\<close>, with its fallback when the vectorizer raises.\<close>

definition common_words :: "string list" where
  "common_words = [''the'', ''a'', ''an'', ''and'', ''or'', ''but'', ''in'', ''on'', ''at'', ''to'', ''for'']"

definition extract_keywords :: "('v, 'x, 'c) sklearn \<Rightarrow> article \<Rightarrow> string list" where
  "extract_keywords lib a =
     (let text = title a @ '' '' @ cleaned_content a
      in case count_vectorizer_features lib text of
           Inr names \<Rightarrow> names
         | Inl e \<Rightarrow>
             take 10 (filter (\<lambda>w. w \<notin> set common_words \<and> length w > 3)
                             (py_split (py_lower text))))"

definition record_article ::
  "('v, 'x, 'c) sklearn \<Rightarrow> article \<Rightarrow> ('v, 'c) learning_database \<Rightarrow> ('v, 'c) learning_database" where
  "record_article lib a d =
     (let score = calculate_relevance_score d a;
          kws = extract_keywords lib a;
          row = \<lparr> row_id = int (length (articles d)) + 1,
                  row_title = title a,
                  row_content = cleaned_content a,
                  row_image_url = image_url a,
                  row_link = link a,
                  row_source_url = source_url a,
                  row_scraped_at = scraped_at a,
                  relevance_score = score,
                  user_interest = None,
                  row_keywords = kws,
                  processed = False \<rparr>
      in d\<lparr>articles := articles d @ [row]\<rparr>)"

text \<open>\<^verbatim>\<open>_basic_interest_prediction\<close>: both loops test \<^verbatim>\<open>term.lower() in combined_text\<close>.\<close>

definition basic_interest_prediction :: "('v, 'c) learning_database \<Rightarrow> article \<Rightarrow> bool" where
  "basic_interest_prediction d a =
     (let the_title = py_lower (title a);
          the_content = py_lower (cleaned_content a);
          combined_text = the_title @ '' '' @ the_content
      in if list_ex (\<lambda>term. py_in (py_lower term) combined_text) (cfg_blacklist d) then False
         else if list_ex (\<lambda>keyword. py_in (py_lower keyword) combined_text) (cfg_keywords d) then True
         else False)"

text \<open>
  The constructor on a fresh database directory: no rows, no model file, so
  \<^verbatim>\<open>_load_or_train_model\<close> only reports that there is not enough data.
\<close>

definition init_learning_database :: "string list \<Rightarrow> string list \<Rightarrow> ('v, 'c) learning_database" where
  "init_learning_database kws bl =
     \<lparr> cfg_keywords = kws, cfg_blacklist = bl,
       articles = [], user_feedback = [], performance_metrics = [],
       vectorizer = None, classifier = None, model_trained = False,
       model_file = None,
       log = [''Database initialized successfully'',
              ''Not enough data for training, using basic filtering''] \<rparr>"

text \<open>
  \<^verbatim>\<open>SELECT title, content, user_interest FROM articles WHERE user_interest IS NOT NULL\<close>
\<close>

definition labeled_rows :: "('v, 'c) learning_database \<Rightarrow> (string \<times> string \<times> int) list" where
  "labeled_rows d =
     List.map_filter
       (\<lambda>r. case user_interest r of
               None \<Rightarrow> None
             | Some u \<Rightarrow> Some (row_title r, row_content r, u))
       (articles d)"

definition has_enough_training_data :: "('v, 'c) learning_database \<Rightarrow> bool" where
  "has_enough_training_data d = (length (labeled_rows d) \<ge> 50)"

definition save_model :: "clock \<Rightarrow> ('v, 'c) learning_database \<Rightarrow> ('v, 'c) learning_database" where
  "save_model clk d =
     logged ''Model saved successfully'' (d\<lparr>model_file := Some (isoformat (local_now clk))\<rparr>)"

definition record_performance_metric ::
  "clock \<Rightarrow> string \<Rightarrow> rat \<Rightarrow> ('v, 'c) learning_database \<Rightarrow> ('v, 'c) learning_database" where
  "record_performance_metric clk name v d =
     d\<lparr>performance_metrics := performance_metrics d @
          [\<lparr> metric_name = name, metric_value = v,
             metric_timestamp = isoformat (local_now clk) \<rparr>]\<rparr>"

text \<open>
  \<^verbatim>\<open>_train_model\<close>. The method returns \<^verbatim>\<open>None\<close> on every path: below 50 rows
  it logs a warning and returns, and the \<^verbatim>\<open>except Exception\<close> around the whole
  body logs whatever a library call raised. The first component of the result is what
  reaches the caller. Attributes assigned before a call raised keep their new values.
\<close>

definition train_failed :: "('v, 'c) learning_database \<Rightarrow> (error + unit) \<times> ('v, 'c) learning_database" where
  "train_failed d = (Inr (), logged ''Error training model'' d)"

definition train_model ::
  "('v, 'x, 'c) sklearn \<Rightarrow> clock \<Rightarrow> ('v, 'c) learning_database
     \<Rightarrow> (error + unit) \<times> ('v, 'c) learning_database" where
  "train_model lib clk d =
     (let data = labeled_rows d
      in if length data < 50 then (Inr (), logged ''Not enough data for training'' d)
         else
           (let texts = map (\<lambda>(t, c, u). t @ '' '' @ c) data;
                labels = map (\<lambda>(t, c, u). u) data;
                d1 = d\<lparr>vectorizer := Some Unfitted\<rparr>
            in (case fit_transform lib texts of
                  Inl e \<Rightarrow> train_failed d1
                | Inr (v, X) \<Rightarrow>
                    (let d2 = d1\<lparr>vectorizer := Some (Fitted v)\<rparr>
                     in (case train_test_split lib X labels of
                           Inl e \<Rightarrow> train_failed d2
                         | Inr (X_train, X_test, y_train, y_test) \<Rightarrow>
                             (let d3 = d2\<lparr>classifier := Some Unfitted\<rparr>
                              in (case fit lib X_train y_train of
                                    Inl e \<Rightarrow> train_failed d3
                                  | Inr c \<Rightarrow>
                                      (let d4 = d3\<lparr>classifier := Some (Fitted c)\<rparr>
                                       in (case predict lib c X_test of
                                             Inl e \<Rightarrow> train_failed d4
                                           | Inr y_pred \<Rightarrow>
                                               (case accuracy_score lib y_test y_pred of
                                                  Inl e \<Rightarrow> train_failed d4
                                                | Inr accuracy \<Rightarrow>
                                                    (let d5 = (logged ''Model trained'' d4)\<lparr>model_trained := True\<rparr>;
                                                         d6 = save_model clk d5;
                                                         d7 = record_performance_metric clk ''model_accuracy'' accuracy d6
                                                     in (Inr (), d7))))))))))))"

text \<open>
  \<^verbatim>\<open>_should_retrain\<close>:
  \<^verbatim>\<open>SELECT COUNT(*) FROM user_feedback WHERE feedback_timestamp > datetime('now', '-1 day')\<close>.
  Both sides are TEXT: the column holds what \<^verbatim>\<open>isoformat()\<close> produced.
\<close>

definition recent_feedback :: "clock \<Rightarrow> ('v, 'c) learning_database \<Rightarrow> nat" where
  "recent_feedback clk d =
     (let cutoff = sqlite_datetime (minus_one_day (utc_now clk))
      in length (filter (\<lambda>r. text_less cutoff (feedback_timestamp r)) (user_feedback d)))"

definition should_retrain :: "clock \<Rightarrow> ('v, 'c) learning_database \<Rightarrow> bool" where
  "should_retrain clk d = (recent_feedback clk d \<ge> 10)"

text \<open>
  \<^verbatim>\<open>record_user_feedback\<close>: INSERT, UPDATE when the kind carries a label, commit,
  then the retrain gate. Nothing is raised to the caller.
\<close>

definition update_user_interest :: "int \<Rightarrow> int \<Rightarrow> article_row list \<Rightarrow> article_row list" where
  "update_user_interest u aid rows =
     map (\<lambda>r. if row_id r = aid then r\<lparr>user_interest := Some u\<rparr> else r) rows"

definition record_user_feedback ::
  "('v, 'x, 'c) sklearn \<Rightarrow> clock \<Rightarrow> int \<Rightarrow> string \<Rightarrow> ('v, 'c) learning_database
     \<Rightarrow> (error + unit) \<times> ('v, 'c) learning_database" where
  "record_user_feedback lib clk aid kind d =
     (let row = \<lparr> feedback_id = int (length (user_feedback d)) + 1,
                  article_id = aid,
                  feedback_type = kind,
                  feedback_timestamp = isoformat (local_now clk) \<rparr>;
          d1 = d\<lparr>user_feedback := user_feedback d @ [row]\<rparr>;
          interest = (if kind = ''interested'' then Some 1
                      else if kind = ''not_interested'' then Some 0
                      else None);
          d2 = (case interest of
                  Some u \<Rightarrow> d1\<lparr>articles := update_user_interest u aid (articles d1)\<rparr>
                | None \<Rightarrow> d1);
          d3 = (if should_retrain clk d2 then snd (train_model lib clk d2) else d2)
      in (Inr (), logged ''Recorded feedback'' d3))"

text \<open>
  \<^verbatim>\<open>predict_interest\<close>: without a trained model, and whenever the model path
  raises (no estimator, an estimator that was never fitted, a library error, an empty
  prediction), the answer is that of \<open>basic_interest_prediction\<close>.
\<close>

definition predict_interest ::
  "('v, 'x, 'c) sklearn \<Rightarrow> ('v, 'c) learning_database \<Rightarrow> article \<Rightarrow> bool" where
  "predict_interest lib d a =
     (if \<not> model_trained d then basic_interest_prediction d a
      else
        (let text = title a @ '' '' @ cleaned_content a
         in (case vectorizer d of
               Some (Fitted v) \<Rightarrow>
                 (case transform lib v [text] of
                    Inl e \<Rightarrow> basic_interest_prediction d a
                  | Inr text_vector \<Rightarrow>
                      (case classifier d of
                         Some (Fitted c) \<Rightarrow>
                           (case predict lib c text_vector of
                              Inr (prediction # rest) \<Rightarrow>
                                (case predict_proba lib c text_vector of
                                   Inr (probability # others) \<Rightarrow> prediction = 1
                                 | _ \<Rightarrow> basic_interest_prediction d a)
                            | _ \<Rightarrow> basic_interest_prediction d a)
                       | _ \<Rightarrow> basic_interest_prediction d a))
             | _ \<Rightarrow> basic_interest_prediction d a)))"

section \<open>The scoring rule as the specification words it\<close>

text \<open>
  A keyword is present in a text, case-insensitively, when its lower-case form is a
  contiguous part of the lower-case text.
\<close>

definition present_in :: "string \<Rightarrow> string \<Rightarrow> bool" where
  "present_in keyword text = (\<exists>pre post. py_lower text = pre @ py_lower keyword @ post)"

definition keyword_fraction :: "string list \<Rightarrow> string \<Rightarrow> rat" where
  "keyword_fraction kws text =
     (if kws = [] then 0
      else of_nat (length (filter (\<lambda>k. present_in k text) kws)) / of_nat (length kws))"

definition image_present :: "article \<Rightarrow> bool" where
  "image_present a = (image_url a \<noteq> None \<and> image_url a \<noteq> Some [])"

definition bonus :: "bool \<Rightarrow> rat \<Rightarrow> rat" where
  "bonus b x = (if b then x else 0)"

definition score_rule :: "string list \<Rightarrow> article \<Rightarrow> rat" where
  "score_rule kws a =
     min 1
       (bonus (20 \<le> length (title a) \<and> length (title a) \<le> 100) (2 / 10)
        + bonus (length (cleaned_content a) > 200) (2 / 10)
        + (4 / 10) * keyword_fraction kws (title a @ '' '' @ cleaned_content a)
        + bonus (image_present a) (2 / 10))"

section \<open>Whole-word matching as the specification words it\<close>

text \<open>
  A term occurs in a text as a whole word, case-insensitively, when some part of the
  text equals the term up to case and is neither preceded nor followed by a word
  character. A term is word-like when it is not empty and begins and ends with a word
  character.
\<close>

definition whole_word_occurrence :: "string \<Rightarrow> string \<Rightarrow> bool" where
  "whole_word_occurrence term text =
     (\<exists>pre mid post.
        text = pre @ mid @ post \<and> py_lower mid = py_lower term
        \<and> (pre = [] \<or> \<not> is_word_char (last pre))
        \<and> (post = [] \<or> \<not> is_word_char (hd post)))"

definition word_like :: "string \<Rightarrow> bool" where
  "word_like term = (term \<noteq> [] \<and> is_word_char (hd term) \<and> is_word_char (last term))"

text \<open>The character just before a position: the last of \<open>xs\<close>, or \<open>prev\<close> if there is none.\<close>

definition last_or :: "char option \<Rightarrow> string \<Rightarrow> char option" where
  "last_or prev xs = (if xs = [] then prev else Some (last xs))"

section \<open>The relevance gate as the specification words it\<close>






text \<open>
  The combined text of an article is its lower-case title, a space, and its lower-case
  content; its length is the combined length the gate compares with the minimum. A term
  matches when it occurs in the combined text as a whole word, case-insensitively.
\<close>

definition combined_text_of :: "article \<Rightarrow> string" where
  "combined_text_of a = py_lower (title a) @ '' '' @ py_lower (content a)"


section \<open>A training run as the specification words it\<close>

text \<open>
  Fitting and evaluation as one computation that either completes, with the fitted
  vectorizer, the fitted classifier and the held-out accuracy, or fails at its first
  failing step.
\<close>

definition fit_and_evaluate ::
  "('v, 'x, 'c) sklearn \<Rightarrow> (string \<times> string \<times> int) list \<Rightarrow> error + ('v \<times> 'c \<times> rat)" where
  "fit_and_evaluate lib data =
     (case fit_transform lib (map (\<lambda>(t, c, u). t @ '' '' @ c) data) of
        Inl e \<Rightarrow> Inl e
      | Inr (v, X) \<Rightarrow>
          (case train_test_split lib X (map (\<lambda>(t, c, u). u) data) of
             Inl e \<Rightarrow> Inl e
           | Inr (X_train, X_test, y_train, y_test) \<Rightarrow>
               (case fit lib X_train y_train of
                  Inl e \<Rightarrow> Inl e
                | Inr c \<Rightarrow>
                    (case predict lib c X_test of
                       Inl e \<Rightarrow> Inl e
                     | Inr y_pred \<Rightarrow>
                         (case accuracy_score lib y_test y_pred of
                            Inl e \<Rightarrow> Inl e
                          | Inr accuracy \<Rightarrow> Inr (v, c, accuracy))))))"

section \<open>Concrete runs\<close>

text \<open>
  A scheduler on an empty configuration (interval 3600 s) that was started at time 0
  and whose first pass at 60 s ran a scan that finished at 61 s.
\<close>

definition one_scan_done :: scheduler where
  "one_scan_done =
     run_events [Start 0, LoopPass 60000000 (ScanReturned 61000000) 61000000]
       (init_scheduler Map.empty)"

text \<open>A scheduler started at time 0 and paused before its first scan is due.\<close>

definition paused_before_first_scan :: scheduler where
  "paused_before_first_scan = run_events [Start 0, Pause] (init_scheduler Map.empty)"

text \<open>A scheduler started at time 0 that has not scanned yet.\<close>

definition just_started :: scheduler where
  "just_started = run_events [Start 0] (init_scheduler Map.empty)"

text \<open>Two articles as the scraper hands them on, and a database on the default configuration.\<close>

definition council_article :: article where
  "council_article =
     \<lparr> title = ''Important update on the city council budget'',
       content = ''The council met on Monday to discuss the new budget for roads, schools and parks, and several members raised questions about funding sources for next year.'',
       cleaned_content = ''The council met on Monday to discuss the new budget for roads, schools and parks, and several members raised questions about funding sources for next year.'',
       image_url = Some ''https://example.com/council.jpg'',
       link = ''https://example.com/council'',
       source_url = ''https://example.com'',
       scraped_at = ''2026-11-03T20:00:00'' \<rparr>"


definition default_database :: "(nat, int) learning_database" where
  "default_database =
     init_learning_database [''important'', ''news'', ''update''] [''spam'', ''advertisement'']"



text \<open>A short note about a party, and a database whose only keyword is \<open>art\<close>.\<close>

definition party_article :: article where
  "party_article =
     \<lparr> title = ''Party tonight'',
       content = ''Bring snacks.'',
       cleaned_content = ''Bring snacks.'',
       image_url = None,
       link = [],
       source_url = ''https://example.com'',
       scraped_at = ''2026-11-03T20:00:00'' \<rparr>"

definition art_database :: "(nat, int) learning_database" where
  "art_database = init_learning_database [''art''] []"

definition art_filter :: content_filter where
  "art_filter = default_content_filter\<lparr>keyword_list := [''art''], blacklist := []\<rparr>"

text \<open>
  A stand-in for scikit-learn in the concrete runs. The fitted vectorizer is the
  number of documents it saw and a matrix is its number of rows; fitting raises on no
  documents, the split is the first four fifths against the rest, the classifier learns
  the more frequent label and predicts it everywhere. \<open>failing_sklearn\<close> is the same
  library with a classifier whose \<^verbatim>\<open>fit\<close> raises.
\<close>

definition majority :: "int list \<Rightarrow> int" where
  "majority ys = (if 2 * length (filter (\<lambda>y. y = 1) ys) \<ge> length ys then 1 else 0)"

definition toy_sklearn :: "(nat, nat, int) sklearn" where
  "toy_sklearn =
     \<lparr> fit_transform = (\<lambda>texts.
         if texts = [] then Inl LibraryError else Inr (length texts, length texts)),
       train_test_split = (\<lambda>n y.
         Inr (n * 8 div 10, n - n * 8 div 10, take (n * 8 div 10) y, drop (n * 8 div 10) y)),
       fit = (\<lambda>n y. Inr (majority y)),
       predict = (\<lambda>c n. Inr (replicate n c)),
       accuracy_score = (\<lambda>y_true y_pred.
         if y_true = [] then Inl LibraryError
         else Inr (of_nat (length (filter (\<lambda>(a, b). a = b) (zip y_true y_pred)))
                   / of_nat (length y_true))),
       transform = (\<lambda>v texts. Inr (length texts)),
       predict_proba = (\<lambda>c n. Inr (replicate n 1)),
       count_vectorizer_features = (\<lambda>text.
         if py_split text = [] then Inl LibraryError
         else Inr (take 10 (remdups (py_split (py_lower text))))) \<rparr>"

definition failing_sklearn :: "(nat, nat, int) sklearn" where
  "failing_sklearn = toy_sklearn\<lparr>fit := (\<lambda>X y. Inl LibraryError)\<rparr>"

text \<open>Clock readings on a host whose local time is UTC.\<close>

definition at_time :: "nat \<Rightarrow> nat \<Rightarrow> nat \<Rightarrow> nat \<Rightarrow> nat \<Rightarrow> nat \<Rightarrow> clock" where
  "at_time y mo d h mi s =
     \<lparr> local_now = \<lparr> year = y, month = mo, day = d, hour = h, minute = mi, second = s,
                      microsecond = 0 \<rparr>,
       utc_now = \<lparr> year = y, month = mo, day = d, hour = h, minute = mi, second = s,
                    microsecond = 0 \<rparr> \<rparr>"

definition this_evening :: clock where
  "this_evening = at_time 2026 11 3 20 0 0"

text \<open>A store with the given number of labeled articles, labels alternating.\<close>

definition labeled_row :: "int \<Rightarrow> article_row" where
  "labeled_row i =
     \<lparr> row_id = i,
       row_title = ''News'',
       row_content = ''Budget'',
       row_image_url = None,
       row_link = [],
       row_source_url = [],
       row_scraped_at = [],
       relevance_score = 0,
       user_interest = Some (i mod 2),
       row_keywords = [],
       processed = False \<rparr>"

definition labeled_store :: "int \<Rightarrow> (nat, int) learning_database" where
  "labeled_store n =
     (init_learning_database [''important'', ''news'', ''update''] [''spam'', ''advertisement''])
       \<lparr>articles := map labeled_row [1..n]\<rparr>"

text \<open>
  The store of 50 after a training run with the stand-in library, then one more
  labeled article: a trained database about to be retrained.
\<close>

definition trained_store :: "(nat, int) learning_database" where
  "trained_store =
     (let d = snd (train_model toy_sklearn this_evening (labeled_store 50))
      in d\<lparr>articles := articles d @ [labeled_row 51]\<rparr>)"

text \<open>
  A store with one article (identity 1) as nine calls of \<open>record_user_feedback\<close>
  within the second 01:00:00 of the 2nd of November 2026 leave it.
\<close>

definition yesterday_morning :: clock where
  "yesterday_morning = at_time 2026 11 2 1 0 0"

definition old_feedback_row :: "int \<Rightarrow> feedback_row" where
  "old_feedback_row i =
     \<lparr> feedback_id = i, article_id = 1, feedback_type = ''clicked'',
       feedback_timestamp = isoformat (local_now yesterday_morning) \<rparr>"

definition old_feedback_store :: "(nat, int) learning_database" where
  "old_feedback_store =
     (labeled_store 1)
       \<lparr>user_feedback := map old_feedback_row [1..9],
        log := log (labeled_store 1) @ replicate 9 ''Recorded feedback''\<rparr>"

section \<open>Scheduler: counters, interval, pause, failed scans\<close>

lemmas scheduler_defs =
  init_scheduler_def config_get_def start_def stop_def pause_def resume_def
  set_scan_interval_def trigger_scan_now_def run_scheduler_pass_def scan_due_def
  schedule_next_scan_def perform_scan_def config_set_def plus_seconds_def
  timedelta_seconds_def datetime_add_def datetime_max_def is_paused_def

lemma one_scan_done_eq:
  "one_scan_done =
     \<lparr> config = Map.empty, config_file = Map.empty, scan_interval = 3600,
       enabled = True, running = True, last_scan = Some 61000000,
       next_scan = Some 3661000000, total_scans = 1, successful_scans = 1,
       failed_scans = 0 \<rparr>"
  by (simp add: one_scan_done_def scheduler_defs)

lemma apply_event_counters:
  assumes "total_scans s = successful_scans s + failed_scans s"
      and "0 \<le> successful_scans s" and "0 \<le> failed_scans s"
  shows "total_scans (apply_event e s)
           = successful_scans (apply_event e s) + failed_scans (apply_event e s)
       \<and> 0 \<le> successful_scans (apply_event e s) \<and> 0 \<le> failed_scans (apply_event e s)"
  using assms
  by (cases e)
     (auto simp: start_def stop_def pause_def resume_def set_scan_interval_def
                 trigger_scan_now_def run_scheduler_pass_def schedule_next_scan_def
                 perform_scan_def config_set_def Let_def
           split: option.splits scan_outcome.splits sum.splits)

lemma reachable_counters:
  "reachable c s \<Longrightarrow>
     total_scans s = successful_scans s + failed_scans s
     \<and> 0 \<le> successful_scans s \<and> 0 \<le> failed_scans s"
proof (induction rule: reachable.induct)
  case reach_init
  show ?case by (simp add: init_scheduler_def)
next
  case (reach_step s e)
  then show ?case using apply_event_counters [of s e] by blast
qed

lemma reachable_run_events:
  "reachable c s \<Longrightarrow> reachable c (run_events es s)"
  by (induction es arbitrary: s) (auto intro: reach_step)

text \<open>
  C10. In every state the scheduler can reach from its constructor by method calls and
  loop passes, \<open>total_scans\<close> is the sum of \<open>successful_scans\<close> and
  \<open>failed_scans\<close>; a scan cycle adds one to \<open>total_scans\<close> and one to exactly one
  of the other two; and the success rate of the status query is computed without a
  division by zero and lies between 0 and 1.
\<close>

theorem scan_counters_invariant:
  assumes "reachable c s"
  shows "total_scans s = successful_scans s + failed_scans s
       \<and> total_scans (perform_scan out s) = total_scans s + 1
       \<and> (successful_scans (perform_scan out s) = successful_scans s + 1
            \<and> failed_scans (perform_scan out s) = failed_scans s
          \<or> successful_scans (perform_scan out s) = successful_scans s
            \<and> failed_scans (perform_scan out s) = failed_scans s + 1)
       \<and> (\<exists>r. success_rate s = Inr r \<and> 0 \<le> r \<and> r \<le> 1)"
proof -
  from assms have inv: "total_scans s = successful_scans s + failed_scans s"
    "0 \<le> successful_scans s" "0 \<le> failed_scans s"
    using reachable_counters by blast+
  have cyc: "total_scans (perform_scan out s) = total_scans s + 1
       \<and> (successful_scans (perform_scan out s) = successful_scans s + 1
            \<and> failed_scans (perform_scan out s) = failed_scans s
          \<or> successful_scans (perform_scan out s) = successful_scans s
            \<and> failed_scans (perform_scan out s) = failed_scans s + 1)"
    by (cases out) (simp_all add: perform_scan_def)
  have pos: "max (total_scans s) 1 > 0" by simp
  have le: "successful_scans s \<le> max (total_scans s) 1" using inv by simp
  have "success_rate s = Inr (of_int (successful_scans s) / of_int (max (total_scans s) 1))"
    using pos by (simp add: success_rate_def py_truediv_def)
  moreover have "(0::rat) \<le> of_int (successful_scans s) / of_int (max (total_scans s) 1)"
    using inv(2) pos by simp
  moreover have "of_int (successful_scans s) / (of_int (max (total_scans s) 1) :: rat) \<le> 1"
    using le pos by (simp add: divide_le_eq_1)
  ultimately show ?thesis using inv(1) cyc by blast
qed

theorem scan_counters_invariant_witness:
  "reachable Map.empty one_scan_done
   \<and> total_scans one_scan_done = 1
   \<and> successful_scans one_scan_done = 1
   \<and> failed_scans one_scan_done = 0
   \<and> total_scans (perform_scan ScanRaised one_scan_done) = 2
   \<and> failed_scans (perform_scan ScanRaised one_scan_done) = 1
   \<and> success_rate one_scan_done = Inr 1"
proof -
  have r: "reachable Map.empty one_scan_done"
    unfolding one_scan_done_def by (rule reachable_run_events) (rule reach_init)
  show ?thesis
    using r scan_counters_invariant [OF r, of ScanRaised]
    by (simp add: one_scan_done_eq perform_scan_def success_rate_def py_truediv_def)
qed

lemma plus_seconds_in_range:
  "0 \<le> t \<Longrightarrow> 0 \<le> n \<Longrightarrow> t + n * 1000000 \<le> datetime_max \<Longrightarrow>
     plus_seconds t n = Inr (t + n * 1000000)"
  by (simp add: plus_seconds_def timedelta_seconds_def datetime_add_def datetime_max_def)

lemma just_started_eq:
  "just_started =
     \<lparr> config = Map.empty, config_file = Map.empty, scan_interval = 3600,
       enabled = True, running = True, last_scan = None,
       next_scan = Some 60000000, total_scans = 0, successful_scans = 0,
       failed_scans = 0 \<rparr>"
  by (simp add: just_started_def scheduler_defs)

text \<open>
  C8, as stated, fails. A running scheduler that has not completed a scan has no last
  scan time, and \<open>_schedule_next_scan\<close> then sets the next scan to one minute after
  the call, whatever the interval: started at 0 s and given the interval 120 s, or a
  whole day, at 59 s, the scheduler is due at 119 s. And an interval that carries the
  last scan time beyond the last datetime is set and persisted before the addition
  raises OverflowError, which reaches the caller with the next-scan time unchanged.
\<close>

theorem set_scan_interval_counterexample:
  "running just_started
   \<and> last_scan just_started = None
   \<and> fst (set_scan_interval 59000000 120 just_started) = Inr ()
   \<and> next_scan (snd (set_scan_interval 59000000 120 just_started)) = Some 119000000
   \<and> next_scan (snd (set_scan_interval 59000000 86400 just_started)) = Some 119000000
   \<and> running one_scan_done
   \<and> fst (set_scan_interval 70000000 1000000000000 one_scan_done) = Inl OverflowError
   \<and> scan_interval (snd (set_scan_interval 70000000 1000000000000 one_scan_done)) = 1000000000000
   \<and> config_file (snd (set_scan_interval 70000000 1000000000000 one_scan_done)) ''scan_interval''
       = Some 1000000000000
   \<and> next_scan (snd (set_scan_interval 70000000 1000000000000 one_scan_done)) = Some 3661000000"
  by (simp add: just_started_eq one_scan_done_eq set_scan_interval_def config_set_def
                schedule_next_scan_def plus_seconds_def timedelta_seconds_def datetime_add_def
                datetime_max_def Let_def)

text \<open>
  C8 as amended. \<open>set_scan_interval\<close> with fewer than 60 seconds raises (ValueError,
  the invalid-configuration error) and leaves the whole scheduler, so also the interval
  and the next-scan time, as it was. With 60 seconds or more the interval is the new one
  in the scheduler, in the configuration and in the saved configuration file. A stopped
  scheduler keeps its next-scan time. A running scheduler gets a new next-scan time at
  once, whenever that time is a datetime: the last scan time plus the new interval if a
  scan has completed, and one minute after the call if none has.
\<close>

theorem set_scan_interval_contract:
  "(interval < 60 \<longrightarrow> set_scan_interval now interval s = (Inl ValueError, s))
   \<and> (60 \<le> interval \<longrightarrow>
         scan_interval (snd (set_scan_interval now interval s)) = interval
       \<and> config (snd (set_scan_interval now interval s)) ''scan_interval'' = Some interval
       \<and> config_file (snd (set_scan_interval now interval s)) ''scan_interval'' = Some interval
       \<and> last_scan (snd (set_scan_interval now interval s)) = last_scan s
       \<and> (\<not> running s \<longrightarrow>
             fst (set_scan_interval now interval s) = Inr ()
           \<and> next_scan (snd (set_scan_interval now interval s)) = next_scan s)
       \<and> (running s \<longrightarrow>
             (\<forall>l. last_scan s = Some l \<and> 0 \<le> l \<and> l + interval * 1000000 \<le> datetime_max \<longrightarrow>
                  fst (set_scan_interval now interval s) = Inr ()
                \<and> next_scan (snd (set_scan_interval now interval s))
                    = Some (l + interval * 1000000))
           \<and> (last_scan s = None \<and> 0 \<le> now \<and> now + 60 * 1000000 \<le> datetime_max \<longrightarrow>
                  fst (set_scan_interval now interval s) = Inr ()
                \<and> next_scan (snd (set_scan_interval now interval s))
                    = Some (now + 60 * 1000000))))"
proof -
  have small: "interval < 60 \<longrightarrow> set_scan_interval now interval s = (Inl ValueError, s)"
    by (simp add: set_scan_interval_def)
  have fields: "60 \<le> interval \<longrightarrow>
         scan_interval (snd (set_scan_interval now interval s)) = interval
       \<and> config (snd (set_scan_interval now interval s)) ''scan_interval'' = Some interval
       \<and> config_file (snd (set_scan_interval now interval s)) ''scan_interval'' = Some interval
       \<and> last_scan (snd (set_scan_interval now interval s)) = last_scan s"
    by (simp add: set_scan_interval_def config_set_def schedule_next_scan_def Let_def
             split: option.splits sum.splits)
  have stopped: "60 \<le> interval \<longrightarrow> \<not> running s \<longrightarrow>
             fst (set_scan_interval now interval s) = Inr ()
           \<and> next_scan (snd (set_scan_interval now interval s)) = next_scan s"
    by (simp add: set_scan_interval_def config_set_def Let_def)
  have scanned: "60 \<le> interval \<longrightarrow> running s \<longrightarrow>
             (\<forall>l. last_scan s = Some l \<and> 0 \<le> l \<and> l + interval * 1000000 \<le> datetime_max \<longrightarrow>
                  fst (set_scan_interval now interval s) = Inr ()
                \<and> next_scan (snd (set_scan_interval now interval s))
                    = Some (l + interval * 1000000))"
    by (simp add: set_scan_interval_def config_set_def schedule_next_scan_def Let_def
                  plus_seconds_in_range)
  have fresh: "60 \<le> interval \<longrightarrow> running s \<longrightarrow>
             (last_scan s = None \<and> 0 \<le> now \<and> now + 60 * 1000000 \<le> datetime_max \<longrightarrow>
                  fst (set_scan_interval now interval s) = Inr ()
                \<and> next_scan (snd (set_scan_interval now interval s))
                    = Some (now + 60 * 1000000))"
    using plus_seconds_in_range [of now 60]
    by (simp add: set_scan_interval_def config_set_def schedule_next_scan_def Let_def)
  from small fields stopped scanned fresh show ?thesis by blast
qed

theorem set_scan_interval_contract_witness:
  "(30::int) < 60
   \<and> set_scan_interval 70000000 30 one_scan_done = (Inl ValueError, one_scan_done)
   \<and> (60::int) \<le> 120
   \<and> scan_interval (snd (set_scan_interval 70000000 120 one_scan_done)) = 120
   \<and> config_file (snd (set_scan_interval 70000000 120 one_scan_done)) ''scan_interval'' = Some 120
   \<and> \<not> running (init_scheduler Map.empty)
   \<and> next_scan (snd (set_scan_interval 70000000 120 (init_scheduler Map.empty))) = None
   \<and> running one_scan_done \<and> last_scan one_scan_done = Some 61000000
   \<and> (0::int) \<le> 61000000 \<and> 61000000 + 120 * 1000000 \<le> datetime_max
   \<and> fst (set_scan_interval 70000000 120 one_scan_done) = Inr ()
   \<and> next_scan (snd (set_scan_interval 70000000 120 one_scan_done)) = Some (61000000 + 120 * 1000000)
   \<and> running just_started \<and> last_scan just_started = None
   \<and> (0::int) \<le> 59000000 \<and> 59000000 + 60 * 1000000 \<le> datetime_max
   \<and> fst (set_scan_interval 59000000 120 just_started) = Inr ()
   \<and> next_scan (snd (set_scan_interval 59000000 120 just_started)) = Some (59000000 + 60 * 1000000)"
proof -
  have r1: "running one_scan_done" "last_scan one_scan_done = Some 61000000"
    by (simp_all add: one_scan_done_eq)
  have r2: "running just_started" "last_scan just_started = None"
    by (simp_all add: just_started_eq)
  have r3: "\<not> running (init_scheduler Map.empty)" "next_scan (init_scheduler Map.empty) = None"
    by (simp_all add: init_scheduler_def)
  have b1: "(0::int) \<le> 61000000 \<and> 61000000 + 120 * 1000000 \<le> datetime_max"
    by (simp add: datetime_max_def)
  have b2: "(0::int) \<le> 59000000 \<and> 59000000 + 60 * 1000000 \<le> datetime_max"
    by (simp add: datetime_max_def)
  have lo: "(30::int) < 60" and hi: "(60::int) \<le> 120" by simp_all
  note a = set_scan_interval_contract [where interval = 30 and now = 70000000 and s = one_scan_done]
  note b = set_scan_interval_contract [where interval = 120 and now = 70000000 and s = one_scan_done]
  note c = set_scan_interval_contract [where interval = 120 and now = 59000000 and s = just_started]
  note d = set_scan_interval_contract [where interval = 120 and now = 70000000
                                         and s = "init_scheduler Map.empty"]
  from a lo have w1: "set_scan_interval 70000000 30 one_scan_done = (Inl ValueError, one_scan_done)"
    by blast
  from b hi r1 b1 have w2:
    "scan_interval (snd (set_scan_interval 70000000 120 one_scan_done)) = 120
     \<and> config_file (snd (set_scan_interval 70000000 120 one_scan_done)) ''scan_interval'' = Some 120
     \<and> fst (set_scan_interval 70000000 120 one_scan_done) = Inr ()
     \<and> next_scan (snd (set_scan_interval 70000000 120 one_scan_done)) = Some (61000000 + 120 * 1000000)"
    by blast
  from c hi r2 b2 have w3:
    "fst (set_scan_interval 59000000 120 just_started) = Inr ()
     \<and> next_scan (snd (set_scan_interval 59000000 120 just_started)) = Some (59000000 + 60 * 1000000)"
    by blast
  from d hi r3 have w4:
    "next_scan (snd (set_scan_interval 70000000 120 (init_scheduler Map.empty))) = None"
    by metis
  from lo hi w1 w2 w3 w4 r1 r2 r3(1) b1 b2 show ?thesis by blast
qed

text \<open>
  C5. The claim is that a paused scheduler fires no scan. The loop of
  \<open>_run_scheduler\<close> tests \<open>running\<close> and the next-scan time only; \<open>pause\<close>
  clears \<open>enabled\<close>, which the loop never reads. Here the scheduler is started at
  time 0 and paused; at 60 s the first scan is due, and the loop pass runs it: the
  scheduler is paused before and after, and the scan is counted.
\<close>

theorem paused_scheduler_still_scans:
  "is_paused paused_before_first_scan
   \<and> next_scan paused_before_first_scan = Some 60000000
   \<and> total_scans paused_before_first_scan = 0
   \<and> is_paused (apply_event (LoopPass 60000000 (ScanReturned 61000000) 61000000) paused_before_first_scan)
   \<and> total_scans (apply_event (LoopPass 60000000 (ScanReturned 61000000) 61000000) paused_before_first_scan) = 1
   \<and> successful_scans (apply_event (LoopPass 60000000 (ScanReturned 61000000) 61000000) paused_before_first_scan) = 1
   \<and> last_scan (apply_event (LoopPass 60000000 (ScanReturned 61000000) 61000000) paused_before_first_scan) = Some 61000000"
  by (simp add: paused_before_first_scan_def scheduler_defs)

text \<open>
  C6. The claim is that a failed scan cycle leaves a next-scan time strictly later than
  the failure. The failure branch of \<open>_perform_scan\<close> does not touch \<open>last_scan\<close>,
  and \<open>_schedule_next_scan\<close> adds the interval to \<open>last_scan\<close>. Here one scan has
  succeeded at 61 s, the next is due at 3661 s, and the pass at 3700 s runs a scan that
  raises: both counters go up and the loop stays alive, but the next-scan time is again
  3661 s, before the failure, so the scan is due again on the following pass at 3760 s.
\<close>

theorem failed_scan_keeps_stale_next_scan:
  "running one_scan_done
   \<and> next_scan one_scan_done = Some 3661000000
   \<and> scan_due 3700000000 one_scan_done
   \<and> total_scans (apply_event (LoopPass 3700000000 ScanRaised 3700500000) one_scan_done) = 2
   \<and> failed_scans (apply_event (LoopPass 3700000000 ScanRaised 3700500000) one_scan_done) = 1
   \<and> running (apply_event (LoopPass 3700000000 ScanRaised 3700500000) one_scan_done)
   \<and> next_scan (apply_event (LoopPass 3700000000 ScanRaised 3700500000) one_scan_done) = Some 3661000000
   \<and> scan_due 3760000000 (apply_event (LoopPass 3700000000 ScanRaised 3700500000) one_scan_done)"
  by (simp add: one_scan_done_eq scheduler_defs)

section \<open>Record-time relevance score\<close>

lemma py_startswith_iff: "py_startswith p s \<longleftrightarrow> (\<exists>post. s = p @ post)"
  by (induction p s rule: py_startswith.induct) auto

lemma py_in_iff: "py_in p s \<longleftrightarrow> (\<exists>pre post. s = pre @ p @ post)"
proof (induction s)
  case Nil
  show ?case by auto
next
  case (Cons c cs)
  show ?case
  proof
    assume "py_in p (c # cs)"
    then consider "py_startswith p (c # cs)" | "py_in p cs" by auto
    then show "\<exists>pre post. c # cs = pre @ p @ post"
    proof cases
      case 1
      then obtain post where "c # cs = p @ post" using py_startswith_iff by blast
      then have "c # cs = [] @ p @ post" by simp
      then show ?thesis by blast
    next
      case 2
      then obtain pre post where "cs = pre @ p @ post" using Cons.IH by blast
      then have "c # cs = (c # pre) @ p @ post" by simp
      then show ?thesis by blast
    qed
  next
    assume "\<exists>pre post. c # cs = pre @ p @ post"
    then obtain pre post where e: "c # cs = pre @ p @ post" by blast
    show "py_in p (c # cs)"
    proof (cases pre)
      case Nil
      with e have "py_startswith p (c # cs)" using py_startswith_iff by auto
      then show ?thesis by simp
    next
      case (Cons x pre')
      with e have "cs = pre' @ p @ post" by simp
      then have "py_in p cs" using Cons.IH by blast
      then show ?thesis by simp
    qed
  qed
qed

lemma py_in_present: "py_in (py_lower k) (py_lower text) = present_in k text"
  by (simp add: py_in_iff present_in_def)

lemma keyword_fraction_bounds:
  "0 \<le> keyword_fraction kws text \<and> keyword_fraction kws text \<le> 1"
proof (cases "kws = []")
  case True
  then show ?thesis by (simp add: keyword_fraction_def)
next
  case False
  then have pos: "(0::rat) < of_nat (length kws)" by simp
  have le: "length (filter (\<lambda>k. present_in k text) kws) \<le> length kws" by simp
  then have "(of_nat (length (filter (\<lambda>k. present_in k text) kws)) :: rat) \<le> of_nat (length kws)"
    using of_nat_le_iff by blast
  with pos show ?thesis using False by (simp add: keyword_fraction_def divide_le_eq_1)
qed

lemma truthy_image: "truthy (image_url a) = image_present a"
  by (simp add: truthy_def image_present_def split: option.splits)

lemma calculate_relevance_score_rule:
  "calculate_relevance_score d a = score_rule (cfg_keywords d) a"
proof (cases "cfg_keywords d = []")
  case True
  then show ?thesis
    by (simp add: calculate_relevance_score_def score_rule_def keyword_fraction_def
                  bonus_def truthy_image Let_def)
next
  case False
  then have "count_div (length (filter (\<lambda>keyword. py_in (py_lower keyword)
                 (py_lower (title a @ '' '' @ cleaned_content a))) (cfg_keywords d)))
               (length (cfg_keywords d))
             = Inr (keyword_fraction (cfg_keywords d) (title a @ '' '' @ cleaned_content a))"
    by (simp add: count_div_def py_truediv_def keyword_fraction_def py_in_present)
  with False show ?thesis
    by (simp add: calculate_relevance_score_def score_rule_def bonus_def truthy_image Let_def
                  min.commute mult.commute)
qed

lemma score_rule_bounds: "0 \<le> score_rule kws a \<and> score_rule kws a \<le> 1"
proof -
  have "0 \<le> keyword_fraction kws (title a @ '' '' @ cleaned_content a)"
    using keyword_fraction_bounds by blast
  then show ?thesis by (simp add: score_rule_def bonus_def)
qed

text \<open>
  C1. The score that \<open>record_article\<close> computes and stores is the sum of 0.2 for a
  title of 20 to 100 characters, 0.2 for a cleaned content of more than 200 characters,
  0.4 times the fraction of the configured keywords present (case-insensitively) in
  title, space, cleaned content, and 0.2 for an image reference that is present (not
  missing and not empty), capped at 1; it lies between 0 and 1. Floats are read as
  exact rationals.
\<close>

theorem relevance_score_rule:
  "calculate_relevance_score d a = score_rule (cfg_keywords d) a
   \<and> relevance_score (last (articles (record_article lib a d))) = score_rule (cfg_keywords d) a
   \<and> 0 \<le> calculate_relevance_score d a \<and> calculate_relevance_score d a \<le> 1"
  using calculate_relevance_score_rule [of d a] score_rule_bounds [of "cfg_keywords d" a]
  by (simp add: record_article_def Let_def)

theorem relevance_score_rule_witness:
  "calculate_relevance_score default_database council_article = 2 / 3
   \<and> score_rule (cfg_keywords default_database) council_article = 2 / 3"
proof -
  have c: "calculate_relevance_score default_database council_article = 2 / 3"
    by code_simp
  have e: "calculate_relevance_score default_database council_article
             = score_rule (cfg_keywords default_database) council_article"
    using relevance_score_rule [of default_database council_article] by (rule conjunct1)
  show ?thesis
    using c c [unfolded e] by (rule conjI)
qed

section \<open>The relevance gate\<close>



section \<open>Matching modes\<close>

lemma of_char_lower:
  "(of_char (py_lower_char c) :: nat) = (if py_isupper c then of_char c + 32 else of_char c)"
proof (cases "py_isupper c")
  case True
  then have "(of_char c :: nat) + 32 < 256" by (auto simp: py_isupper_def Let_def)
  then show ?thesis using True by (simp add: py_lower_char_def)
next
  case False
  then show ?thesis by (simp add: py_lower_char_def)
qed

lemma upper_is_word: "py_isupper c \<Longrightarrow> is_word_char c"
  by (auto simp: py_isupper_def is_word_char_def Let_def)

lemma upper_shift_is_word:
  "py_isupper c \<Longrightarrow> (of_char c' :: nat) = of_char c + 32 \<Longrightarrow> is_word_char c'"
  by (auto simp: py_isupper_def is_word_char_def Let_def)

lemma lower_eq_word_char:
  assumes "py_lower_char c = py_lower_char c'"
  shows "is_word_char c = is_word_char c'"
proof -
  from assms have "(of_char (py_lower_char c) :: nat) = of_char (py_lower_char c')" by simp
  then have e: "(if py_isupper c then (of_char c :: nat) + 32 else of_char c)
              = (if py_isupper c' then of_char c' + 32 else of_char c')"
    by (simp only: of_char_lower)
  consider (uu) "py_isupper c" "py_isupper c'" | (ul) "py_isupper c" "\<not> py_isupper c'"
    | (lu) "\<not> py_isupper c" "py_isupper c'" | (ll) "\<not> py_isupper c" "\<not> py_isupper c'"
    by blast
  then show ?thesis
  proof cases
    case uu
    then show ?thesis by (simp add: upper_is_word)
  next
    case ul
    with e have "(of_char c' :: nat) = of_char c + 32" by simp
    with ul show ?thesis using upper_is_word upper_shift_is_word by blast
  next
    case lu
    with e have "(of_char c :: nat) = of_char c' + 32" by simp
    with lu show ?thesis using upper_is_word upper_shift_is_word by blast
  next
    case ll
    with e have "(of_char c :: nat) = of_char c'" by simp
    then have "c = c'" by simp
    then show ?thesis by simp
  qed
qed

lemma match_literal_Some_iff:
  "match_literal t prev s = Some (lst, rest)
     \<longleftrightarrow> (\<exists>mid. s = mid @ rest \<and> py_lower mid = py_lower t \<and> lst = last_or prev mid)"
proof (induction t prev s rule: match_literal.induct)
  case (1 prev s)
  show ?case by (auto simp: py_lower_def last_or_def)
next
  case (2 p ps prev)
  show ?case by (auto simp: py_lower_def)
next
  case (3 p ps prev c cs)
  show ?case
  proof (cases "py_lower_char p = py_lower_char c")
    case False
    then show ?thesis by (auto simp: py_lower_def Cons_eq_append_conv)
  next
    case True
    have "(\<exists>mid. c # cs = mid @ rest \<and> py_lower mid = py_lower (p # ps) \<and> lst = last_or prev mid)
          \<longleftrightarrow> (\<exists>mid'. cs = mid' @ rest \<and> py_lower mid' = py_lower ps \<and> lst = last_or (Some c) mid')"
    proof
      assume "\<exists>mid. c # cs = mid @ rest \<and> py_lower mid = py_lower (p # ps) \<and> lst = last_or prev mid"
      then obtain mid where m: "c # cs = mid @ rest" "py_lower mid = py_lower (p # ps)"
        "lst = last_or prev mid" by blast
      from m(2) obtain x mid' where mid: "mid = x # mid'" by (cases mid) (auto simp: py_lower_def)
      with m have "cs = mid' @ rest" "py_lower mid' = py_lower ps" "x = c"
        by (auto simp: py_lower_def)
      moreover from m(3) mid \<open>x = c\<close> have "lst = last_or (Some c) mid'"
        by (auto simp: last_or_def)
      ultimately show "\<exists>mid'. cs = mid' @ rest \<and> py_lower mid' = py_lower ps \<and> lst = last_or (Some c) mid'"
        by blast
    next
      assume "\<exists>mid'. cs = mid' @ rest \<and> py_lower mid' = py_lower ps \<and> lst = last_or (Some c) mid'"
      then obtain mid' where m: "cs = mid' @ rest" "py_lower mid' = py_lower ps"
        "lst = last_or (Some c) mid'" by blast
      then have "c # cs = (c # mid') @ rest \<and> py_lower (c # mid') = py_lower (p # ps)
                 \<and> lst = last_or prev (c # mid')"
        using True by (auto simp: py_lower_def last_or_def)
      then show "\<exists>mid. c # cs = mid @ rest \<and> py_lower mid = py_lower (p # ps) \<and> lst = last_or prev mid"
        by blast
    qed
    with True 3 show ?thesis by simp
  qed
qed

lemma match_at_iff:
  "match_at (WordPattern t) prev s
     \<longleftrightarrow> (\<exists>mid rest. s = mid @ rest \<and> py_lower mid = py_lower t
            \<and> word_boundary prev (first_char s)
            \<and> word_boundary (last_or prev mid) (first_char rest))"
proof (cases "match_literal t prev s")
  case None
  then have "\<And>lst rest. match_literal t prev s \<noteq> Some (lst, rest)" by simp
  then have "\<not> (\<exists>mid rest. s = mid @ rest \<and> py_lower mid = py_lower t)"
    using match_literal_Some_iff by blast
  with None show ?thesis by (auto simp: match_at_def)
next
  case (Some r)
  obtain lst rest where r: "r = (lst, rest)" by (cases r)
  with Some have ml: "match_literal t prev s = Some (lst, rest)" by simp
  then obtain mid where mid: "s = mid @ rest" "py_lower mid = py_lower t" "lst = last_or prev mid"
    using match_literal_Some_iff by blast
  have uniq: "\<And>mid' rest'. s = mid' @ rest' \<Longrightarrow> py_lower mid' = py_lower t \<Longrightarrow> mid' = mid \<and> rest' = rest"
  proof -
    fix mid' rest' assume a: "s = mid' @ rest'" "py_lower mid' = py_lower t"
    then have "match_literal t prev s = Some (last_or prev mid', rest')"
      using match_literal_Some_iff by blast
    with ml have "rest' = rest" by simp
    with a mid show "mid' = mid \<and> rest' = rest" by simp
  qed
  show ?thesis
  proof
    assume "match_at (WordPattern t) prev s"
    with ml mid show "\<exists>mid rest. s = mid @ rest \<and> py_lower mid = py_lower t
            \<and> word_boundary prev (first_char s)
            \<and> word_boundary (last_or prev mid) (first_char rest)"
      by (auto simp: match_at_def)
  next
    assume "\<exists>mid rest. s = mid @ rest \<and> py_lower mid = py_lower t
            \<and> word_boundary prev (first_char s)
            \<and> word_boundary (last_or prev mid) (first_char rest)"
    then obtain mid' rest' where a: "s = mid' @ rest'" "py_lower mid' = py_lower t"
      "word_boundary prev (first_char s)" "word_boundary (last_or prev mid') (first_char rest')"
      by blast
    with uniq have "mid' = mid" "rest' = rest" by blast+
    with a ml mid show "match_at (WordPattern t) prev s" by (simp add: match_at_def)
  qed
qed


lemma last_or_Cons: "last_or prev (c # xs) = last_or (Some c) xs"
  by (simp add: last_or_def)

lemma search_from_iff:
  "search_from (WordPattern t) prev s
     \<longleftrightarrow> (\<exists>pre mid rest. s = pre @ mid @ rest \<and> py_lower mid = py_lower t
            \<and> word_boundary (last_or prev pre) (first_char (mid @ rest))
            \<and> word_boundary (last_or (last_or prev pre) mid) (first_char rest))"
  (is "?L prev s \<longleftrightarrow> ?R prev s")
proof (induction s arbitrary: prev)
  case Nil
  show ?case by (auto simp: match_at_iff last_or_def)
next
  case (Cons c cs)
  show ?case
  proof
    assume "?L prev (c # cs)"
    then consider "match_at (WordPattern t) prev (c # cs)" | "search_from (WordPattern t) (Some c) cs"
      by auto
    then show "?R prev (c # cs)"
    proof cases
      case 1
      then obtain mid rest where m: "c # cs = mid @ rest" "py_lower mid = py_lower t"
        "word_boundary prev (first_char (c # cs))"
        "word_boundary (last_or prev mid) (first_char rest)"
        using match_at_iff by blast
      then have "c # cs = [] @ mid @ rest \<and> py_lower mid = py_lower t
            \<and> word_boundary (last_or prev []) (first_char (mid @ rest))
            \<and> word_boundary (last_or (last_or prev []) mid) (first_char rest)"
        by (simp add: last_or_def)
      then show ?thesis by blast
    next
      case 2
      then obtain pre mid rest where m: "cs = pre @ mid @ rest" "py_lower mid = py_lower t"
        "word_boundary (last_or (Some c) pre) (first_char (mid @ rest))"
        "word_boundary (last_or (last_or (Some c) pre) mid) (first_char rest)"
        using Cons.IH by blast
      then have "c # cs = (c # pre) @ mid @ rest \<and> py_lower mid = py_lower t
            \<and> word_boundary (last_or prev (c # pre)) (first_char (mid @ rest))
            \<and> word_boundary (last_or (last_or prev (c # pre)) mid) (first_char rest)"
        by (simp add: last_or_Cons)
      then show ?thesis by blast
    qed
  next
    assume "?R prev (c # cs)"
    then obtain pre mid rest where m: "c # cs = pre @ mid @ rest" "py_lower mid = py_lower t"
      "word_boundary (last_or prev pre) (first_char (mid @ rest))"
      "word_boundary (last_or (last_or prev pre) mid) (first_char rest)"
      by blast
    show "?L prev (c # cs)"
    proof (cases pre)
      case Nil
      with m have "c # cs = mid @ rest \<and> py_lower mid = py_lower t
            \<and> word_boundary prev (first_char (c # cs))
            \<and> word_boundary (last_or prev mid) (first_char rest)"
        by (simp add: last_or_def)
      then have "\<exists>mid rest. c # cs = mid @ rest \<and> py_lower mid = py_lower t
            \<and> word_boundary prev (first_char (c # cs))
            \<and> word_boundary (last_or prev mid) (first_char rest)"
        by blast
      then have "match_at (WordPattern t) prev (c # cs)"
        by (simp only: match_at_iff)
      then show ?thesis by simp
    next
      case (Cons x pre')
      with m have x: "x = c" "cs = pre' @ mid @ rest" by simp_all
      with m Cons have "cs = pre' @ mid @ rest \<and> py_lower mid = py_lower t
            \<and> word_boundary (last_or (Some c) pre') (first_char (mid @ rest))
            \<and> word_boundary (last_or (last_or (Some c) pre') mid) (first_char rest)"
        by (simp add: last_or_Cons)
      then have "?R (Some c) cs" by blast
      then have "search_from (WordPattern t) (Some c) cs" using Cons.IH by blast
      then show ?thesis by simp
    qed
  qed
qed

lemma py_lower_eq_ends:
  assumes "py_lower mid = py_lower t" "word_like t"
  shows "mid \<noteq> [] \<and> is_word_char (hd mid) \<and> is_word_char (last mid)"
proof -
  from assms have t: "t \<noteq> []" "is_word_char (hd t)" "is_word_char (last t)"
    by (simp_all add: word_like_def)
  from assms(1) have len: "length mid = length t"
    by (metis length_map py_lower_def)
  with t have mid: "mid \<noteq> []" by auto
  from assms(1) mid t have "py_lower_char (hd mid) = py_lower_char (hd t)"
    by (metis hd_map py_lower_def)
  moreover from assms(1) mid t have "py_lower_char (last mid) = py_lower_char (last t)"
    by (metis last_map py_lower_def)
  ultimately show ?thesis using t mid lower_eq_word_char by blast
qed

lemma re_search_whole_word:
  assumes "word_like t"
  shows "re_search (WordPattern t) text \<longleftrightarrow> whole_word_occurrence t text"
proof -
  have "\<And>pre mid rest. py_lower mid = py_lower t \<Longrightarrow>
          (word_boundary (last_or None pre) (first_char (mid @ rest))
           \<and> word_boundary (last_or (last_or None pre) mid) (first_char rest))
          \<longleftrightarrow> ((pre = [] \<or> \<not> is_word_char (last pre)) \<and> (rest = [] \<or> \<not> is_word_char (hd rest)))"
  proof -
    fix pre mid rest assume "py_lower mid = py_lower t"
    then have m: "mid \<noteq> []" "is_word_char (hd mid)" "is_word_char (last mid)"
      using py_lower_eq_ends assms by blast+
    then have a: "is_word (first_char (mid @ rest))"
      by (cases mid) (simp_all add: first_char_def is_word_def)
    have b: "is_word (last_or (last_or None pre) mid)"
      using m by (simp add: last_or_def is_word_def)
    have c: "is_word (last_or None pre) \<longleftrightarrow> \<not> (pre = [] \<or> \<not> is_word_char (last pre))"
      by (simp add: last_or_def is_word_def)
    have d: "is_word (first_char rest) \<longleftrightarrow> \<not> (rest = [] \<or> \<not> is_word_char (hd rest))"
      by (cases rest) (simp_all add: first_char_def is_word_def)
    show "(word_boundary (last_or None pre) (first_char (mid @ rest))
           \<and> word_boundary (last_or (last_or None pre) mid) (first_char rest))
          \<longleftrightarrow> ((pre = [] \<or> \<not> is_word_char (last pre)) \<and> (rest = [] \<or> \<not> is_word_char (hd rest)))"
      using a b c d by (simp add: word_boundary_def)
  qed
  then show ?thesis
    unfolding re_search_def search_from_iff whole_word_occurrence_def by blast
qed

section \<open>Training\<close>

lemma train_model_never_raises: "fst (train_model lib clk d) = Inr ()"
  by (simp add: train_model_def train_failed_def Let_def split: sum.splits prod.splits)

lemma train_model_small:
  "length (labeled_rows d) < 50 \<Longrightarrow>
     train_model lib clk d = (Inr (), logged ''Not enough data for training'' d)"
  by (simp add: train_model_def Let_def)

lemma train_model_completed:
  assumes "50 \<le> length (labeled_rows d)"
      and "fit_and_evaluate lib (labeled_rows d) = Inr (v, c, accuracy)"
  shows "snd (train_model lib clk d) =
           record_performance_metric clk ''model_accuracy'' accuracy
             (save_model clk
               ((logged ''Model trained''
                   (d\<lparr>vectorizer := Some (Fitted v), classifier := Some (Fitted c)\<rparr>))
                \<lparr>model_trained := True\<rparr>))"
  using assms
  by (auto simp: train_model_def fit_and_evaluate_def Let_def split: sum.splits prod.splits)

lemma train_model_failed:
  assumes "50 \<le> length (labeled_rows d)"
      and "fit_and_evaluate lib (labeled_rows d) = Inl e"
  shows "model_trained (snd (train_model lib clk d)) = model_trained d"
  using assms
  by (auto simp: train_model_def fit_and_evaluate_def train_failed_def logged_def Let_def
           split: sum.splits prod.splits)

text \<open>
  C3 as amended. \<open>_train_model\<close> never raises. With fewer than 50 labeled articles
  it logs a warning and leaves the database, so also the vectorizer, the classifier and
  the trained flag, exactly as they were. With 50 or more, if fitting and evaluation
  complete, the vectorizer and the classifier are the newly fitted ones and the trained
  flag is set; if any step fails, the trained flag keeps its previous value.
\<close>

theorem train_model_outcome:
  "fst (train_model lib clk d) = Inr ()
   \<and> (length (labeled_rows d) < 50 \<longrightarrow>
        snd (train_model lib clk d) = logged ''Not enough data for training'' d
        \<and> vectorizer (snd (train_model lib clk d)) = vectorizer d
        \<and> classifier (snd (train_model lib clk d)) = classifier d
        \<and> model_trained (snd (train_model lib clk d)) = model_trained d)
   \<and> (50 \<le> length (labeled_rows d) \<longrightarrow>
        (\<forall>v c accuracy. fit_and_evaluate lib (labeled_rows d) = Inr (v, c, accuracy) \<longrightarrow>
           vectorizer (snd (train_model lib clk d)) = Some (Fitted v)
           \<and> classifier (snd (train_model lib clk d)) = Some (Fitted c)
           \<and> model_trained (snd (train_model lib clk d)))
        \<and> (\<forall>e. fit_and_evaluate lib (labeled_rows d) = Inl e \<longrightarrow>
           model_trained (snd (train_model lib clk d)) = model_trained d))"
proof -
  have "length (labeled_rows d) < 50 \<longrightarrow>
        snd (train_model lib clk d) = logged ''Not enough data for training'' d
        \<and> vectorizer (snd (train_model lib clk d)) = vectorizer d
        \<and> classifier (snd (train_model lib clk d)) = classifier d
        \<and> model_trained (snd (train_model lib clk d)) = model_trained d"
    by (simp add: train_model_small logged_def)
  moreover have "50 \<le> length (labeled_rows d) \<longrightarrow>
        (\<forall>v c accuracy. fit_and_evaluate lib (labeled_rows d) = Inr (v, c, accuracy) \<longrightarrow>
           vectorizer (snd (train_model lib clk d)) = Some (Fitted v)
           \<and> classifier (snd (train_model lib clk d)) = Some (Fitted c)
           \<and> model_trained (snd (train_model lib clk d)))"
    by (simp add: train_model_completed record_performance_metric_def save_model_def logged_def)
  moreover have "50 \<le> length (labeled_rows d) \<longrightarrow>
        (\<forall>e. fit_and_evaluate lib (labeled_rows d) = Inl e \<longrightarrow>
           model_trained (snd (train_model lib clk d)) = model_trained d)"
    using train_model_failed by blast
  ultimately show ?thesis using train_model_never_raises by blast
qed

section \<open>Feedback\<close>

lemma train_model_tables:
  "articles (snd (train_model lib clk d)) = articles d
   \<and> user_feedback (snd (train_model lib clk d)) = user_feedback d"
  by (simp add: train_model_def train_failed_def logged_def save_model_def
                record_performance_metric_def Let_def
           split: sum.splits prod.splits)

lemma labeled_rows_le: "length (labeled_rows d) \<le> length (articles d)"
  by (simp add: labeled_rows_def map_filter_def)

lemma record_user_feedback_never_raises:
  "fst (record_user_feedback lib clk aid kind d) = Inr ()"
  by (simp add: record_user_feedback_def Let_def)

lemma record_user_feedback_rows:
  "user_feedback (snd (record_user_feedback lib clk aid kind d)) =
     user_feedback d @
       [\<lparr> feedback_id = int (length (user_feedback d)) + 1, article_id = aid,
          feedback_type = kind, feedback_timestamp = isoformat (local_now clk) \<rparr>]"
  by (simp add: record_user_feedback_def Let_def logged_def train_model_tables
           split: option.splits)

lemma update_user_interest_unknown:
  "list_all (\<lambda>r. row_id r \<noteq> aid) rows \<Longrightarrow> update_user_interest u aid rows = rows"
  by (induction rows) (simp_all add: update_user_interest_def)

lemma record_user_feedback_unknown_articles:
  "list_all (\<lambda>r. row_id r \<noteq> aid) (articles d) \<Longrightarrow>
     articles (snd (record_user_feedback lib clk aid kind d)) = articles d"
  by (simp add: record_user_feedback_def Let_def logged_def train_model_tables
                update_user_interest_unknown
           split: option.splits)

lemma recent_feedback_rows:
  "recent_feedback clk d =
     length (filter (\<lambda>r. text_less (sqlite_datetime (minus_one_day (utc_now clk)))
                                     (feedback_timestamp r)) (user_feedback d))"
  by (simp add: recent_feedback_def Let_def)

lemma cutoff_this_evening:
  "sqlite_datetime (minus_one_day (utc_now this_evening)) = ''2026-11-02 20:00:00''"
  by code_simp

lemma stamp_this_evening: "isoformat (local_now this_evening) = ''2026-11-03T20:00:00''"
  by code_simp

lemma stamp_yesterday_morning: "isoformat (local_now yesterday_morning) = ''2026-11-02T01:00:00''"
  by code_simp

lemma stamps_after_cutoff:
  "text_less ''2026-11-02 20:00:00'' ''2026-11-02T01:00:00''
   \<and> text_less ''2026-11-02 20:00:00'' ''2026-11-03T20:00:00''"
  by code_simp

lemma yesterday_morning_outside_window:
  "\<not> earlier (minus_one_day (local_now this_evening)) (local_now yesterday_morning)"
  by code_simp

lemma old_feedback_store_recent: "recent_feedback this_evening old_feedback_store = 9"
  by (simp add: recent_feedback_rows cutoff_this_evening old_feedback_store_def
                old_feedback_row_def stamp_yesterday_morning stamps_after_cutoff filter_map o_def)

lemma old_feedback_store_next_recent:
  "recent_feedback this_evening
     (snd (record_user_feedback toy_sklearn this_evening 1 ''clicked'' old_feedback_store)) = 10"
  by (simp add: recent_feedback_rows [of _ "snd _"] record_user_feedback_rows cutoff_this_evening
                stamp_this_evening stamps_after_cutoff old_feedback_store_recent [unfolded recent_feedback_rows cutoff_this_evening])

lemma labeled_rows_other_fields:
  "labeled_rows (d\<lparr>user_feedback := rows\<rparr>) = labeled_rows d"
  by (simp add: labeled_rows_def)

lemma old_feedback_store_small:
  "length (labeled_rows (old_feedback_store\<lparr>user_feedback := rows\<rparr>)) < 50"
proof -
  have "length (articles old_feedback_store) \<le> 1"
    by (simp add: old_feedback_store_def labeled_store_def)
  then show ?thesis
    using labeled_rows_le [of old_feedback_store] by (simp add: labeled_rows_other_fields)
qed

lemma old_feedback_store_gate:
  "should_retrain this_evening
     (old_feedback_store\<lparr>user_feedback := user_feedback old_feedback_store @
        [\<lparr> feedback_id = i, article_id = 1, feedback_type = ''clicked'',
           feedback_timestamp = isoformat (local_now this_evening) \<rparr>]\<rparr>)"
  using old_feedback_store_recent
  by (simp add: should_retrain_def recent_feedback_rows cutoff_this_evening stamp_this_evening
                stamps_after_cutoff)

text \<open>
  C4. The claim is that retraining is triggered exactly when at least ten feedback
  events lie within the trailing 24 hours. The stored timestamps are
  \<open>isoformat\<close> texts with the separator T, the cutoff is SQLite's text with a
  space, and the two are compared as texts: every event of the cutoff's calendar date
  counts, whatever its time of day. Here nine events were stored on the 2nd of November
  at 01:00:00, and one more arrives on the 3rd at 20:00:00, 43 hours later: none of the
  nine lies within the trailing 24 hours, the gate counts all of them, and the tenth
  event invokes \<open>_train_model\<close> (which finds too few labeled articles and says so).
\<close>

theorem retrain_gate_counts_older_feedback:
  "\<not> earlier (minus_one_day (local_now this_evening)) (local_now yesterday_morning)
   \<and> list_all (\<lambda>r. feedback_timestamp r = isoformat (local_now yesterday_morning))
        (user_feedback old_feedback_store)
   \<and> length (user_feedback old_feedback_store) = 9
   \<and> recent_feedback this_evening old_feedback_store = 9
   \<and> recent_feedback this_evening
        (snd (record_user_feedback toy_sklearn this_evening 1 ''clicked'' old_feedback_store)) = 10
   \<and> log (snd (record_user_feedback toy_sklearn this_evening 1 ''clicked'' old_feedback_store))
       = log old_feedback_store @ [''Not enough data for training'', ''Recorded feedback'']"
proof -
  have rows: "list_all (\<lambda>r. feedback_timestamp r = isoformat (local_now yesterday_morning))
        (user_feedback old_feedback_store)
      \<and> length (user_feedback old_feedback_store) = 9"
    by (simp add: old_feedback_store_def old_feedback_row_def list_all_iff)
  have "log (snd (record_user_feedback toy_sklearn this_evening 1 ''clicked'' old_feedback_store))
       = log old_feedback_store @ [''Not enough data for training'', ''Recorded feedback'']"
    by (simp add: record_user_feedback_def Let_def old_feedback_store_gate
                  train_model_small old_feedback_store_small logged_def)
  then show ?thesis
    using yesterday_morning_outside_window rows old_feedback_store_recent
      old_feedback_store_next_recent
    by blast
qed

lemma one_article_store: "articles (labeled_store 1) = [labeled_row 1]"
  by (simp add: labeled_store_def)

text \<open>
  C7. The claim is that feedback for an identity the store does not hold changes no
  statistics, the recent-feedback count included. \<open>record_user_feedback\<close> inserts
  the feedback row before it looks at the articles, and nothing enforces the foreign key
  that the table declares. Here the store holds article 1 only and receives
  \<open>interested\<close> for identity 99: nothing is raised and the articles are unchanged,
  but the event is stored and the recent-feedback count goes from 0 to 1.
\<close>

theorem unknown_identity_feedback_is_stored:
  "list_all (\<lambda>r. row_id r \<noteq> 99) (articles (labeled_store 1))
   \<and> fst (record_user_feedback toy_sklearn this_evening 99 ''interested'' (labeled_store 1)) = Inr ()
   \<and> articles (snd (record_user_feedback toy_sklearn this_evening 99 ''interested'' (labeled_store 1)))
       = articles (labeled_store 1)
   \<and> recent_feedback this_evening (labeled_store 1) = 0
   \<and> recent_feedback this_evening
        (snd (record_user_feedback toy_sklearn this_evening 99 ''interested'' (labeled_store 1))) = 1
   \<and> map article_id
        (user_feedback (snd (record_user_feedback toy_sklearn this_evening 99 ''interested'' (labeled_store 1))))
       = [99]"
proof -
  have u: "list_all (\<lambda>r. row_id r \<noteq> 99) (articles (labeled_store 1))"
    by (simp add: one_article_store labeled_row_def)
  have e: "user_feedback (labeled_store 1) = []"
    by (simp add: labeled_store_def init_learning_database_def)
  have r0: "recent_feedback this_evening (labeled_store 1) = 0"
    by (simp add: recent_feedback_rows e)
  have r1: "recent_feedback this_evening
        (snd (record_user_feedback toy_sklearn this_evening 99 ''interested'' (labeled_store 1))) = 1"
    by (simp add: recent_feedback_rows record_user_feedback_rows e cutoff_this_evening
                  stamp_this_evening stamps_after_cutoff)
  have ids: "map article_id
        (user_feedback (snd (record_user_feedback toy_sklearn this_evening 99 ''interested'' (labeled_store 1))))
       = [99]"
    by (simp add: record_user_feedback_rows e)
  show ?thesis
    using u r0 r1 ids record_user_feedback_never_raises
      record_user_feedback_unknown_articles [OF u]
    by blast
qed

section \<open>Training runs on concrete stores\<close>

lemma labeled_rows_labeled_store:
  "labeled_rows (labeled_store n) = map (\<lambda>i. (''News'', ''Budget'', i mod 2)) [1..n]"
  by (simp add: labeled_rows_def labeled_store_def map_filter_def labeled_row_def o_def)

lemma len49: "length (labeled_rows (labeled_store 49)) = 49"
  by (simp add: labeled_rows_labeled_store)

lemma len50: "length (labeled_rows (labeled_store 50)) = 50"
  by (simp add: labeled_rows_labeled_store)

lemma run50: "fit_and_evaluate toy_sklearn (labeled_rows (labeled_store 50)) = Inr (50, 1, 1 / 2)"
  by code_simp

lemma trained_store_state:
  "vectorizer trained_store = Some (Fitted 50)
   \<and> classifier trained_store = Some (Fitted 1)
   \<and> model_trained trained_store"
proof -
  have "50 \<le> length (labeled_rows (labeled_store 50))" by (simp add: len50)
  then show ?thesis
    using train_model_completed [OF _ run50, of this_evening]
    by (simp add: trained_store_def Let_def record_performance_metric_def save_model_def logged_def)
qed

lemma labeled_rows_trained_store:
  "labeled_rows trained_store = labeled_rows (labeled_store 50) @ [(''News'', ''Budget'', 1)]"
  by (simp add: trained_store_def Let_def labeled_rows_def train_model_tables map_filter_def
                labeled_row_def)

lemma len51: "50 \<le> length (labeled_rows trained_store)"
  by (simp add: labeled_rows_trained_store len50)

lemma run51: "fit_and_evaluate failing_sklearn (labeled_rows trained_store) = Inl LibraryError"
  by (simp add: fit_and_evaluate_def failing_sklearn_def toy_sklearn_def labeled_rows_trained_store)

lemma failed_run_state:
  "vectorizer (snd (train_model failing_sklearn this_evening trained_store)) = Some (Fitted 51)
   \<and> classifier (snd (train_model failing_sklearn this_evening trained_store)) = Some Unfitted"
  by (simp add: train_model_def Let_def failing_sklearn_def toy_sklearn_def train_failed_def
                logged_def labeled_rows_trained_store len50)

text \<open>
  C3, as stated, fails. With 49 labeled articles \<open>_train_model\<close> raises nothing: it
  logs a warning and returns. And a training run that fails part-way does not leave the
  previous state intact: the trained store below holds a fitted vectorizer and a fitted
  classifier; retraining it with a library whose classifier cannot be fitted leaves a
  new vectorizer and a classifier that was never fitted, under a trained flag that
  still says True.
\<close>

theorem train_model_counterexample:
  "length (labeled_rows (labeled_store 49)) = 49
   \<and> fst (train_model toy_sklearn this_evening (labeled_store 49)) = Inr ()
   \<and> vectorizer trained_store = Some (Fitted 50)
   \<and> classifier trained_store = Some (Fitted 1)
   \<and> model_trained trained_store
   \<and> fit_and_evaluate failing_sklearn (labeled_rows trained_store) = Inl LibraryError
   \<and> vectorizer (snd (train_model failing_sklearn this_evening trained_store)) = Some (Fitted 51)
   \<and> classifier (snd (train_model failing_sklearn this_evening trained_store)) = Some Unfitted
   \<and> model_trained (snd (train_model failing_sklearn this_evening trained_store))"
proof -
  have "model_trained (snd (train_model failing_sklearn this_evening trained_store))"
    using train_model_failed [OF len51 run51, of this_evening] trained_store_state by simp
  then show ?thesis
    using len49 train_model_never_raises [of toy_sklearn this_evening "labeled_store 49"]
      trained_store_state run51 failed_run_state
    by blast
qed

theorem train_model_outcome_witness:
  "length (labeled_rows (labeled_store 49)) < 50
   \<and> snd (train_model toy_sklearn this_evening (labeled_store 49))
       = logged ''Not enough data for training'' (labeled_store 49)
   \<and> 50 \<le> length (labeled_rows (labeled_store 50))
   \<and> fit_and_evaluate toy_sklearn (labeled_rows (labeled_store 50)) = Inr (50, 1, 1 / 2)
   \<and> vectorizer (snd (train_model toy_sklearn this_evening (labeled_store 50))) = Some (Fitted 50)
   \<and> classifier (snd (train_model toy_sklearn this_evening (labeled_store 50))) = Some (Fitted 1)
   \<and> model_trained (snd (train_model toy_sklearn this_evening (labeled_store 50)))
   \<and> 50 \<le> length (labeled_rows trained_store)
   \<and> fit_and_evaluate failing_sklearn (labeled_rows trained_store) = Inl LibraryError
   \<and> model_trained (snd (train_model failing_sklearn this_evening trained_store))
       = model_trained trained_store"
proof -
  have lt: "length (labeled_rows (labeled_store 49)) < 50" by (simp add: len49)
  have ge: "50 \<le> length (labeled_rows (labeled_store 50))" by (simp add: len50)
  from lt have a: "snd (train_model toy_sklearn this_evening (labeled_store 49))
       = logged ''Not enough data for training'' (labeled_store 49)"
    using train_model_outcome [of toy_sklearn this_evening "labeled_store 49"] by blast
  from ge run50 have b:
    "vectorizer (snd (train_model toy_sklearn this_evening (labeled_store 50))) = Some (Fitted 50)
     \<and> classifier (snd (train_model toy_sklearn this_evening (labeled_store 50))) = Some (Fitted 1)
     \<and> model_trained (snd (train_model toy_sklearn this_evening (labeled_store 50)))"
    using train_model_outcome [of toy_sklearn this_evening "labeled_store 50"] by blast
  from len51 run51 have c:
    "model_trained (snd (train_model failing_sklearn this_evening trained_store))
       = model_trained trained_store"
    using train_model_outcome [of failing_sklearn this_evening trained_store] by blast
  from lt a ge run50 b len51 run51 c show ?thesis by blast
qed

section \<open>Matching of keywords and blacklist terms\<close>

lemma py_lower_space: "py_lower x @ CHR '' '' # py_lower y = py_lower (x @ CHR '' '' # y)"
  by (simp add: py_lower_def py_lower_char_def py_isupper_def)

lemma basic_interest_prediction_eq:
  "basic_interest_prediction d a =
     (\<not> (\<exists>term \<in> set (cfg_blacklist d). present_in term (title a @ '' '' @ cleaned_content a))
      \<and> (\<exists>keyword \<in> set (cfg_keywords d). present_in keyword (title a @ '' '' @ cleaned_content a)))"
  by (simp add: basic_interest_prediction_def Let_def list_ex_iff py_lower_space py_in_present)

lemma untrained_predict_interest:
  "\<not> model_trained d \<Longrightarrow> predict_interest lib d a = basic_interest_prediction d a"
  by (simp add: predict_interest_def)

lemma gate_matching_whole_word:
  assumes "list_all word_like (keyword_list f @ blacklist f)"
  shows "contains_keywords f text
           = (keyword_list f = [] \<or> (\<exists>keyword \<in> set (keyword_list f). whole_word_occurrence keyword text))"
    and "contains_blacklisted_terms f text
           = (\<exists>term \<in> set (blacklist f). whole_word_occurrence term text)"
proof -
  from assms have k: "\<And>t. t \<in> set (keyword_list f) \<Longrightarrow> word_like t"
    and b: "\<And>t. t \<in> set (blacklist f) \<Longrightarrow> word_like t"
    by (auto simp: list_all_iff)
  show "contains_keywords f text
           = (keyword_list f = [] \<or> (\<exists>keyword \<in> set (keyword_list f). whole_word_occurrence keyword text))"
    using k by (auto simp: contains_keywords_def keyword_patterns_def list_ex_iff re_search_whole_word)
  show "contains_blacklisted_terms f text
           = (\<exists>term \<in> set (blacklist f). whole_word_occurrence term text)"
    using b by (auto simp: contains_blacklisted_terms_def blacklist_patterns_def list_ex_iff re_search_whole_word)
qed

lemma art_word_like: "word_like ''art''"
  by (simp add: word_like_def is_word_char_def)

text \<open>
  C9, as stated, fails: the relevance score computed at record time counts a keyword
  that is only part of a word. With the single keyword \<open>art\<close> and the article
  ``Party tonight'', the score is 0.4, all of it the keyword bonus, although
  \<open>art\<close> does not occur as a whole word and the gate's own pattern for \<open>art\<close> finds
  nothing in the same text.
\<close>

theorem score_counts_part_of_word:
  "calculate_relevance_score art_database party_article = 2 / 5
   \<and> py_in (py_lower ''art'') (py_lower (title party_article @ '' '' @ cleaned_content party_article))
   \<and> \<not> re_search (WordPattern ''art'') (py_lower (title party_article @ '' '' @ cleaned_content party_article))
   \<and> \<not> whole_word_occurrence ''art'' (py_lower (title party_article @ '' '' @ cleaned_content party_article))
   \<and> \<not> contains_keywords art_filter (py_lower (title party_article @ '' '' @ cleaned_content party_article))"
proof -
  have a: "calculate_relevance_score art_database party_article = 2 / 5" by code_simp
  have b: "py_in (py_lower ''art'') (py_lower (title party_article @ '' '' @ cleaned_content party_article))"
    by code_simp
  have c: "\<not> re_search (WordPattern ''art'') (py_lower (title party_article @ '' '' @ cleaned_content party_article))"
    by code_simp
  have d: "\<not> contains_keywords art_filter (py_lower (title party_article @ '' '' @ cleaned_content party_article))"
    by code_simp
  from c have e: "\<not> whole_word_occurrence ''art'' (py_lower (title party_article @ '' '' @ cleaned_content party_article))"
    using re_search_whole_word [OF art_word_like] by blast
  from a b c e d show ?thesis by blast
qed

text \<open>
  C9 as amended. For keywords and blacklist terms that begin and end with a word
  character, the matches of the \<open>is_relevant\<close> gate are whole-word, case-insensitive
  occurrences. The relevance score computed at record time and the fallback basic
  interest prediction, which is the answer of \<open>predict_interest\<close> when the model is
  untrained, match by case-insensitive substring presence.
\<close>

theorem matching_modes:
  assumes "list_all word_like (keyword_list f @ blacklist f)"
  shows "contains_keywords f text
           = (keyword_list f = [] \<or> (\<exists>keyword \<in> set (keyword_list f). whole_word_occurrence keyword text))
       \<and> contains_blacklisted_terms f text
           = (\<exists>term \<in> set (blacklist f). whole_word_occurrence term text)
       \<and> calculate_relevance_score d a = score_rule (cfg_keywords d) a
       \<and> basic_interest_prediction d a =
           (\<not> (\<exists>term \<in> set (cfg_blacklist d). present_in term (title a @ '' '' @ cleaned_content a))
            \<and> (\<exists>keyword \<in> set (cfg_keywords d). present_in keyword (title a @ '' '' @ cleaned_content a)))
       \<and> (\<not> model_trained d \<longrightarrow> predict_interest lib d a = basic_interest_prediction d a)"
  using gate_matching_whole_word [OF assms] calculate_relevance_score_rule
    basic_interest_prediction_eq untrained_predict_interest
  by blast

theorem matching_modes_witness:
  "list_all word_like (keyword_list default_content_filter @ blacklist default_content_filter)
   \<and> contains_keywords default_content_filter (combined_text_of council_article)
   \<and> (\<exists>keyword \<in> set (keyword_list default_content_filter).
         whole_word_occurrence keyword (combined_text_of council_article))
   \<and> \<not> contains_blacklisted_terms default_content_filter (combined_text_of council_article)
   \<and> \<not> (\<exists>term \<in> set (blacklist default_content_filter).
         whole_word_occurrence term (combined_text_of council_article))
   \<and> \<not> model_trained default_database
   \<and> predict_interest toy_sklearn default_database council_article
   \<and> basic_interest_prediction default_database council_article"
proof -
  have h: "list_all word_like (keyword_list default_content_filter @ blacklist default_content_filter)"
    by code_simp
  have k: "contains_keywords default_content_filter (combined_text_of council_article)"
    by code_simp
  have b: "\<not> contains_blacklisted_terms default_content_filter (combined_text_of council_article)"
    by code_simp
  have u: "\<not> model_trained default_database"
    by (simp add: default_database_def init_learning_database_def)
  have p: "basic_interest_prediction default_database council_article"
    by code_simp
  show ?thesis
    using h k b u p
      matching_modes [OF h, of "combined_text_of council_article" default_database council_article toy_sklearn]
    by (simp add: default_content_filter_def)
qed

section \<open>The gate's decision\<close>






end
